theory Spec2Isabelle
  imports Complex_Main "HOL-Library.Sublist"
begin

section \<open>Values, exceptions and library calls of app/app/main.py\<close>

text \<open>
  The script is orchestration over third-party libraries (transformers, langchain,
  FAISS, numpy, glob). Its own functions are embedded below statement by statement.
  What a library call returns is not part of the script, so it is a parameter: the
  record \<open>lib\<close> holds one function per library callable, each returning either
  the exception it raises (\<open>Inl\<close>) or its value (\<open>Inr\<close>). Library objects
  (models, tokenizers, configuration objects, vector stores) are opaque: their type is
  the type variable \<open>'o\<close>, and the script only passes them on.
\<close>

text \<open>Python values as far as \<open>isinstance\<close> in \<open>init_bnb_config\<close> tells them apart:
  \<open>PyType n\<close> is a class object (an instance of \<open>type\<close>), \<open>PyObject n\<close> an instance
  of any class other than \<open>bool\<close>, \<open>int\<close>, \<open>str\<close> and \<open>type\<close> (a \<open>torch.dtype\<close>,
  for one).\<close>

datatype pyval = PyNone | PyBool bool | PyInt int | PyStr string | PyType string | PyObject string

datatype exn = ValueError string | IndexError | EOFError | LibraryError string

datatype loader =
  PyPDFLoader | Docx2txtLoader | TextLoader | UnstructuredExcelLoader | UnstructuredPowerPointLoader

record document =
  page_content :: string
  metadata :: "(string \<times> string) list"

text \<open>One constructor per library call of the script, with the arguments that vary.
  Keyword arguments that are literals in the source are fixed and left out
  (\<open>trust_remote_code=True\<close>, \<open>device_map='auto'\<close>, the generation parameters of
  \<open>transformers.pipeline\<close>, \<open>padding=True, truncation=True, return_tensors='pt',
  max_length=512\<close> of the tokenizer call, \<open>return_dict=True\<close>).\<close>

datatype 'o call =
    Call_BitsAndBytesConfig pyval pyval pyval pyval
  | Call_AutoConfig_from_pretrained string "string option"
  | Call_AutoModelForCausalLM_from_pretrained string 'o 'o "string option"
  | Call_eval 'o
  | Call_AutoTokenizer_from_pretrained string "string option"
  | Call_pipeline 'o 'o
  | Call_HuggingFacePipeline 'o
  | Call_glob string
  | Call_loader loader string
  | Call_load 'o
  | Call_CharacterTextSplitter nat nat
  | Call_split_documents 'o "document list"
  | Call_AutoModelForSequenceClassification_from_pretrained string
  | Call_tokenizer 'o "string list list"
  | Call_logits 'o 'o
  | Call_similarity_search 'o string nat
  | Call_from_template string
  | Call_chain 'o 'o
  | Call_invoke 'o string
  | Call_HuggingFaceEmbeddings string
  | Call_FAISS_from_documents "document list" 'o
  | Call_input string
  | Call_print string

datatype 'o event = Returned "'o call" | Raised "'o call" exn

text \<open>The libraries and the world the script runs in. \<open>environ_get\<close> is
  \<open>os.environ.get\<close>; \<open>listdir\<close> gives the names of the entries directly inside a
  directory (what \<open>glob\<close> scans, the empty path standing for the current directory);
  \<open>isdir\<close> tells whether a path is a directory (the script never asks); \<open>logits\<close> is
  \<open>model(**inputs, return_dict=True).logits.view(-1, ).float()\<close> followed by
  \<open>tolist()\<close>, the scores as reals (no NaN); \<open>argsort\<close> is \<open>np.argsort\<close>;
  \<open>chain\<close> builds \<open>{"question": RunnablePassthrough()} | prompt | model |
  StrOutputParser()\<close> and \<open>invoke\<close> is \<open>chain.invoke\<close>. The outcome of a call is a
  function of its arguments; no property below depends on a model sampling two
  different answers to one prompt.\<close>

record 'o lib =
  BitsAndBytesConfig :: "pyval \<Rightarrow> pyval \<Rightarrow> pyval \<Rightarrow> pyval \<Rightarrow> exn + 'o"
  environ_get :: "string \<Rightarrow> string option"
  AutoConfig_from_pretrained :: "string \<Rightarrow> string option \<Rightarrow> exn + 'o"
  AutoModelForCausalLM_from_pretrained :: "string \<Rightarrow> 'o \<Rightarrow> 'o \<Rightarrow> string option \<Rightarrow> exn + 'o"
  model_eval :: "'o \<Rightarrow> exn + unit"
  AutoTokenizer_from_pretrained :: "string \<Rightarrow> string option \<Rightarrow> exn + 'o"
  pipeline :: "'o \<Rightarrow> 'o \<Rightarrow> exn + 'o"
  HuggingFacePipeline :: "'o \<Rightarrow> exn + 'o"
  glob :: "string \<Rightarrow> exn + string list"
  listdir :: "string \<Rightarrow> string list"
  isdir :: "string \<Rightarrow> bool"
  loader_init :: "loader \<Rightarrow> string \<Rightarrow> exn + 'o"
  loader_load :: "'o \<Rightarrow> exn + document list"
  CharacterTextSplitter :: "nat \<Rightarrow> nat \<Rightarrow> exn + 'o"
  split_documents :: "'o \<Rightarrow> document list \<Rightarrow> exn + document list"
  AutoModelForSequenceClassification_from_pretrained :: "string \<Rightarrow> exn + 'o"
  tokenizer_call :: "'o \<Rightarrow> string list list \<Rightarrow> exn + 'o"
  logits :: "'o \<Rightarrow> 'o \<Rightarrow> exn + real list"
  argsort :: "real list \<Rightarrow> nat list"
  similarity_search :: "'o \<Rightarrow> string \<Rightarrow> nat \<Rightarrow> exn + document list"
  from_template :: "string \<Rightarrow> exn + 'o"
  chain :: "'o \<Rightarrow> 'o \<Rightarrow> exn + 'o"
  invoke :: "'o \<Rightarrow> string \<Rightarrow> exn + string"
  HuggingFaceEmbeddings :: "string \<Rightarrow> exn + 'o"
  FAISS_from_documents :: "document list \<Rightarrow> 'o \<Rightarrow> exn + 'o"
  py_print :: "string \<Rightarrow> exn + unit"

subsection \<open>Running statements in sequence\<close>

text \<open>A run of a piece of the script is the list of library calls it made, in order,
  and how it ended: with an exception or with a value. The script has no \<open>try\<close>
  statement, so the only way to combine two statements is \<open>and_then\<close>: the second
  runs if and only if the first returned.\<close>

type_synonym ('o, 'a) run = "'o event list \<times> (exn + 'a)"

definition ret :: "'a \<Rightarrow> ('o, 'a) run" where
  "ret v = ([], Inr v)"

definition raise :: "exn \<Rightarrow> ('o, 'a) run" where
  "raise e = ([], Inl e)"

text \<open>A computation of the script itself, which calls no library.\<close>

definition computed :: "exn + 'a \<Rightarrow> ('o, 'a) run" where
  "computed r = ([], r)"

definition call :: "'o call \<Rightarrow> exn + 'a \<Rightarrow> ('o, 'a) run" where
  "call c r = (case r of Inl e \<Rightarrow> ([Raised c e], Inl e) | Inr v \<Rightarrow> ([Returned c], Inr v))"

definition and_then :: "('o, 'a) run \<Rightarrow> ('a \<Rightarrow> ('o, 'b) run) \<Rightarrow> ('o, 'b) run" where
  "and_then m f =
     (case snd m of
        Inl e \<Rightarrow> (fst m, Inl e)
      | Inr v \<Rightarrow> (fst m @ fst (f v), snd (f v)))"

section \<open>pre\_rerank\<close>

text \<open>\<^verbatim>\<open>contents = [[question, data.page_content] for data in docs]\<close>\<close>

definition pre_rerank :: "document list \<Rightarrow> string \<Rightarrow> string list list" where
  "pre_rerank docs question = map (\<lambda>data. [question, page_content data]) docs"

section \<open>rerank\<close>

definition reranker_id :: string where
  "reranker_id = ''BAAI/bge-reranker-large''"

text \<open>\<^verbatim>\<open>sorted_indices[-3:][::-1]\<close>: the slice starts at \<open>max (len - 3) 0\<close>.\<close>

definition top3_indices :: "nat list \<Rightarrow> nat list" where
  "top3_indices sorted_indices =
     rev (drop (if 3 \<le> length sorted_indices then length sorted_indices - 3 else 0) sorted_indices)"

text \<open>The loop \<^verbatim>\<open>for index in top3_indices: context += str(contents[index][1])\<close>.
  Both subscripts raise \<open>IndexError\<close> out of range; \<open>str\<close> of a string is the string.\<close>

fun rerank_loop :: "string list list \<Rightarrow> nat list \<Rightarrow> string \<Rightarrow> exn + string" where
  "rerank_loop contents [] context = Inr context"
| "rerank_loop contents (index # rest) context =
     (if index < length contents then
        (if 1 < length (contents ! index)
         then rerank_loop contents rest (context @ contents ! index ! 1)
         else Inl IndexError)
      else Inl IndexError)"

definition rerank :: "'o lib \<Rightarrow> string list list \<Rightarrow> ('o, string) run" where
  "rerank lib contents =
     and_then (call (Call_AutoTokenizer_from_pretrained reranker_id None)
                 (AutoTokenizer_from_pretrained lib reranker_id None)) (\<lambda>tokenizer.
     and_then (call (Call_AutoModelForSequenceClassification_from_pretrained reranker_id)
                 (AutoModelForSequenceClassification_from_pretrained lib reranker_id)) (\<lambda>model.
     and_then (call (Call_eval model) (model_eval lib model)) (\<lambda>_.
     and_then (call (Call_tokenizer tokenizer contents) (tokenizer_call lib tokenizer contents)) (\<lambda>inputs.
     and_then (call (Call_logits model inputs) (logits lib model inputs)) (\<lambda>scores.
     computed (rerank_loop contents (top3_indices (argsort lib scores)) []))))))"

text \<open>What numpy promises of \<open>np.argsort scores\<close>: a permutation of the indices of
  \<open>scores\<close> along which the scores ascend. The order among equal scores is left open
  (the default sort is not stable).\<close>

definition is_argsort :: "real list \<Rightarrow> nat list \<Rightarrow> bool" where
  "is_argsort scores idx \<longleftrightarrow>
     distinct idx \<and> set idx = {..<length scores} \<and> sorted (map (\<lambda>i. scores ! i) idx)"

section \<open>init\_bnb\_config and init\_model\<close>

definition isinstance_bool :: "pyval \<Rightarrow> bool" where
  "isinstance_bool v = (case v of PyBool b \<Rightarrow> True | _ \<Rightarrow> False)"

definition isinstance_str :: "pyval \<Rightarrow> bool" where
  "isinstance_str v = (case v of PyStr s \<Rightarrow> True | _ \<Rightarrow> False)"

definition isinstance_type :: "pyval \<Rightarrow> bool" where
  "isinstance_type v = (case v of PyType n \<Rightarrow> True | _ \<Rightarrow> False)"

definition init_bnb_config :: "'o lib \<Rightarrow> pyval \<Rightarrow> pyval \<Rightarrow> pyval \<Rightarrow> pyval \<Rightarrow> ('o, 'o) run" where
  "init_bnb_config lib load_in_4bit bnb_4bit_quant_type bnb_4bit_use_double_quant
       bnb_4bit_compute_dtype =
     (if \<not> isinstance_bool load_in_4bit then
        raise (ValueError ''load_in_4bit must be a boolean value.'')
      else if \<not> isinstance_str bnb_4bit_quant_type then
        raise (ValueError ''bnb_4bit_quant_type must be a string.'')
      else if \<not> isinstance_bool bnb_4bit_use_double_quant then
        raise (ValueError ''bnb_4bit_use_double_quant must be a boolean value.'')
      else if \<not> (isinstance_type bnb_4bit_compute_dtype \<or> isinstance_str bnb_4bit_compute_dtype) then
        raise (ValueError ''bnb_4bit_compute_dtype must be a valid data type.'')
      else
        call (Call_BitsAndBytesConfig load_in_4bit bnb_4bit_quant_type bnb_4bit_use_double_quant
                bnb_4bit_compute_dtype)
          (BitsAndBytesConfig lib load_in_4bit bnb_4bit_quant_type bnb_4bit_use_double_quant
             bnb_4bit_compute_dtype))"

text \<open>The call \<^verbatim>\<open>init_bnb_config()\<close>: every parameter takes its default.\<close>

definition init_bnb_config_defaults :: "'o lib \<Rightarrow> ('o, 'o) run" where
  "init_bnb_config_defaults lib =
     init_bnb_config lib (PyBool True) (PyStr ''nf4'') (PyBool True) (PyStr ''bfloat16'')"

definition default_model_id :: string where
  "default_model_id = ''meta-llama/Llama-2-13b-chat-hf''"

definition init_model :: "'o lib \<Rightarrow> 'o \<Rightarrow> string \<Rightarrow> ('o, 'o) run" where
  "init_model lib bnb_config model_id =
     (let hf_auth = environ_get lib ''HF_AUTH'' in
      and_then (call (Call_AutoConfig_from_pretrained model_id hf_auth)
                  (AutoConfig_from_pretrained lib model_id hf_auth)) (\<lambda>model_config.
      and_then (call (Call_AutoModelForCausalLM_from_pretrained model_id model_config bnb_config hf_auth)
                  (AutoModelForCausalLM_from_pretrained lib model_id model_config bnb_config hf_auth))
        (\<lambda>model.
      and_then (call (Call_eval model) (model_eval lib model)) (\<lambda>_.
      and_then (call (Call_AutoTokenizer_from_pretrained model_id hf_auth)
                  (AutoTokenizer_from_pretrained lib model_id hf_auth)) (\<lambda>tokenizer.
      and_then (call (Call_pipeline model tokenizer) (pipeline lib model tokenizer)) (\<lambda>generate_text.
      call (Call_HuggingFacePipeline generate_text) (HuggingFacePipeline lib generate_text)))))))"

section \<open>user\_documents\<close>

definition file_extensions :: "string list" where
  "file_extensions = [''.pdf'', ''.docx'', ''.doc'', ''.txt'', ''.xlsx'', ''.pptx'']"

definition loaders :: "string \<rightharpoonup> loader" where
  "loaders = map_of
     [(''.pdf'', PyPDFLoader), (''.docx'', Docx2txtLoader), (''.doc'', Docx2txtLoader),
      (''.txt'', TextLoader), (''.xlsx'', UnstructuredExcelLoader),
      (''.pptx'', UnstructuredPowerPointLoader)]"

text \<open>\<open>os.path.join a b\<close> on POSIX, for two components.\<close>

definition os_path_join :: "string \<Rightarrow> string \<Rightarrow> string" where
  "os_path_join a b =
     (if b \<noteq> [] \<and> hd b = CHR ''/'' then b
      else if a = [] \<or> last a = CHR ''/'' then a @ b
      else a @ ''/'' @ b)"

text \<open>\<open>os.path.splitext\<close> on POSIX: the extension starts at the last dot of the last path
  component, unless only dots stand before it in that component.\<close>

definition os_path_splitext :: "string \<Rightarrow> string \<times> string" where
  "os_path_splitext p =
     (let tail = rev (takeWhile (\<lambda>c. c \<noteq> CHR ''/'') (rev p));
          ext = CHR ''.'' # rev (takeWhile (\<lambda>c. c \<noteq> CHR ''.'') (rev tail))
      in if CHR ''.'' \<in> set (dropWhile (\<lambda>c. c = CHR ''.'') tail)
         then (take (length p - length ext) p, ext)
         else (p, []))"

text \<open>\<^verbatim>\<open>for extension in file_extensions:
    files.extend(glob.glob(os.path.join(directory, '*' + extension)))\<close>\<close>

fun glob_extensions :: "'o lib \<Rightarrow> string \<Rightarrow> string list \<Rightarrow> string list \<Rightarrow> ('o, string list) run" where
  "glob_extensions lib directory [] files = ret files"
| "glob_extensions lib directory (extension # rest) files =
     and_then (call (Call_glob (os_path_join directory (''*'' @ extension)))
                 (glob lib (os_path_join directory (''*'' @ extension))))
       (\<lambda>found. glob_extensions lib directory rest (files @ found))"

text \<open>\<^verbatim>\<open>for file in files:
    file_extension = os.path.splitext(file)[1]
    if file_extension in loaders:
        loader = loaders[file_extension](file)
        documents.extend(loader.load())\<close>\<close>

fun load_files :: "'o lib \<Rightarrow> string list \<Rightarrow> document list \<Rightarrow> ('o, document list) run" where
  "load_files lib [] documents = ret documents"
| "load_files lib (file # rest) documents =
     (case loaders (snd (os_path_splitext file)) of
        Some loader_class \<Rightarrow>
          and_then (call (Call_loader loader_class file) (loader_init lib loader_class file)) (\<lambda>loader.
          and_then (call (Call_load loader) (loader_load lib loader)) (\<lambda>loaded.
          load_files lib rest (documents @ loaded)))
      | None \<Rightarrow> load_files lib rest documents)"

definition user_documents :: "'o lib \<Rightarrow> string \<Rightarrow> ('o, document list) run" where
  "user_documents lib directory =
     and_then (glob_extensions lib directory file_extensions []) (\<lambda>files.
     and_then (load_files lib files []) (\<lambda>documents.
     and_then (call (Call_CharacterTextSplitter 1000 0) (CharacterTextSplitter lib 1000 0))
       (\<lambda>text_splitter.
     call (Call_split_documents text_splitter documents)
       (split_documents lib text_splitter documents))))"

text \<open>\<open>glob\<close> reads the characters \<open>*\<close>, \<open>?\<close> and \<open>[\<close> as pattern syntax wherever they
  stand. \<open>user_documents\<close> passes the directory to it unescaped, so a directory string
  with one of them is itself a pattern.\<close>

definition has_magic :: "string \<Rightarrow> bool" where
  "has_magic s \<longleftrightarrow> CHR ''*'' \<in> set s \<or> CHR ''?'' \<in> set s \<or> CHR ''['' \<in> set s"

text \<open>The directory \<open>glob\<close> scans for the pattern \<open>directory/*extension\<close>, and joins each
  name it finds to: the head \<open>os.path.split\<close> gives for the pattern, which is the
  directory without its trailing slashes, unless it consists of slashes only.\<close>

definition glob_dirname :: "string \<Rightarrow> string" where
  "glob_dirname directory =
     (if set directory \<subseteq> {CHR ''/''} then directory
      else rev (dropWhile (\<lambda>c. c = CHR ''/'') (rev directory)))"

text \<open>A name matches \<open>*extension\<close> when it ends with the extension and does not begin
  with a dot (a leading dot is matched only by a pattern that begins with one).\<close>

definition glob_matches :: "string \<Rightarrow> string \<Rightarrow> bool" where
  "glob_matches extension name \<longleftrightarrow> suffix extension name \<and> \<not> prefix ''.'' name"

text \<open>What Python's \<open>glob\<close> does for the six patterns \<open>directory/*extension\<close> when
  \<open>directory\<close> is a literal path (it has none of the characters of \<open>has_magic\<close>): of the
  entries directly inside the directory, files and directories alike, in the order of
  the scan, it returns those whose name matches, each joined to \<open>glob_dirname\<close>. An entry
  name is not empty and has no slash.\<close>

definition glob_contract :: "'o lib \<Rightarrow> string \<Rightarrow> bool" where
  "glob_contract lib directory \<longleftrightarrow>
     (\<forall>extension\<in>set file_extensions.
        glob lib (os_path_join directory (''*'' @ extension)) =
          Inr (map (os_path_join (glob_dirname directory))
                 (filter (glob_matches extension) (listdir lib (glob_dirname directory))))) \<and>
     (\<forall>name\<in>set (listdir lib (glob_dirname directory)). name \<noteq> [] \<and> CHR ''/'' \<notin> set name)"

section \<open>llm and query\<close>

definition prompt_template :: "string \<Rightarrow> string \<Rightarrow> string" where
  "prompt_template context question =
     ''Answer the question based only on the context,\<newline> '' @ context @
     '' \<newline>        \<newline>        Question: '' @ question @
     '' \<newline>        Answer in French:\<newline>        ''"

definition llm :: "'o lib \<Rightarrow> string \<Rightarrow> 'o \<Rightarrow> 'o \<Rightarrow> ('o, string) run" where
  "llm lib question data_base model =
     and_then (call (Call_similarity_search data_base question 25)
                 (similarity_search lib data_base question 25)) (\<lambda>docs.
     and_then (rerank lib (pre_rerank docs question)) (\<lambda>context.
     and_then (call (Call_from_template (prompt_template context question))
                 (from_template lib (prompt_template context question))) (\<lambda>prompt.
     and_then (call (Call_chain prompt model) (chain lib prompt model)) (\<lambda>chain_obj.
     call (Call_invoke chain_obj question) (invoke lib chain_obj question)))))"

definition embeddings_model_name :: string where
  "embeddings_model_name = ''sentence-transformers/all-MiniLM-L6-v2''"

definition query :: "'o lib \<Rightarrow> string \<Rightarrow> string \<Rightarrow> ('o, string) run" where
  "query lib question docs_path =
     and_then (init_bnb_config_defaults lib) (\<lambda>bnb_config.
     and_then (init_model lib bnb_config default_model_id) (\<lambda>model.
     and_then (call (Call_HuggingFaceEmbeddings embeddings_model_name)
                 (HuggingFaceEmbeddings lib embeddings_model_name)) (\<lambda>embeddings.
     and_then (user_documents lib docs_path) (\<lambda>docs.
     and_then (call (Call_FAISS_from_documents docs embeddings)
                 (FAISS_from_documents lib docs embeddings)) (\<lambda>db.
     llm lib question db model)))))"

section \<open>The command-line loop\<close>

definition path_prompt :: string where
  "path_prompt = ''Enter the path to the documents dir''"

definition query_prompt :: string where
  "query_prompt = ''Type in your query (type '' @ [CHR 0x27] @ ''exit'' @ [CHR 0x27] @
     '' to quit):\<newline>''"

text \<open>\<open>input(prompt)\<close> reads the next line of standard input, a list of lines here,
  and raises \<open>EOFError\<close> at its end. After the call the lines left are
  \<open>drop 1 stdin\<close>.\<close>

definition py_input :: "string \<Rightarrow> string list \<Rightarrow> ('o, string) run" where
  "py_input prompt stdin =
     (case stdin of
        [] \<Rightarrow> call (Call_input prompt) (Inl EOFError)
      | line # rest \<Rightarrow> call (Call_input prompt) (Inr line))"

text \<open>\<^verbatim>\<open>while query != "exit":
    result = llm(query, db, model)
    print(result)
    query = input("Type in your query (type 'exit' to quit):\n")\<close>
  The loop takes the query read before it and the lines of standard input left.\<close>

fun cli_loop :: "'o lib \<Rightarrow> 'o \<Rightarrow> 'o \<Rightarrow> string \<Rightarrow> string list \<Rightarrow> ('o, unit) run" where
  "cli_loop lib db model question [] =
     (if question \<noteq> ''exit'' then
        and_then (llm lib question db model) (\<lambda>result.
        and_then (call (Call_print result) (py_print lib result)) (\<lambda>_.
        call (Call_input query_prompt) (Inl EOFError)))
      else ret ())"
| "cli_loop lib db model question (line # rest) =
     (if question \<noteq> ''exit'' then
        and_then (llm lib question db model) (\<lambda>result.
        and_then (call (Call_print result) (py_print lib result)) (\<lambda>_.
        and_then (call (Call_input query_prompt) (Inr line)) (\<lambda>next_question.
        cli_loop lib db model next_question rest)))
      else ret ())"

definition main :: "'o lib \<Rightarrow> string list \<Rightarrow> ('o, unit) run" where
  "main lib stdin =
     and_then (init_bnb_config_defaults lib) (\<lambda>bnb_config.
     and_then (init_model lib bnb_config default_model_id) (\<lambda>model.
     and_then (call (Call_HuggingFaceEmbeddings embeddings_model_name)
                 (HuggingFaceEmbeddings lib embeddings_model_name)) (\<lambda>embeddings.
     and_then (py_input path_prompt stdin) (\<lambda>directory.
     and_then (user_documents lib directory) (\<lambda>docs.
     and_then (call (Call_FAISS_from_documents docs embeddings)
                 (FAISS_from_documents lib docs embeddings)) (\<lambda>db.
     and_then (py_input query_prompt (drop 1 stdin)) (\<lambda>question.
     cli_loop lib db model question (drop 2 stdin))))))))"

section \<open>Reading a run\<close>

fun event_call :: "'o event \<Rightarrow> 'o call" where
  "event_call (Returned c) = c"
| "event_call (Raised c e) = c"

text \<open>No recovery: a library call that raised is the last event of the run, and the run
  ends with the exception it raised.\<close>

fun propagates :: "'o event list \<Rightarrow> exn + 'a \<Rightarrow> bool" where
  "propagates [] r = True"
| "propagates (Returned c # t) r = propagates t r"
| "propagates (Raised c e # t) r = (t = [] \<and> r = Inl e)"

definition no_recovery :: "('o, 'a) run \<Rightarrow> bool" where
  "no_recovery r = propagates (fst r) (snd r)"

text \<open>The vector stores searched in a run and the questions submitted to them, in order.\<close>

definition searched :: "'o event list \<Rightarrow> ('o \<times> string) list" where
  "searched t =
     concat (map (\<lambda>ev. case event_call ev of
                          Call_similarity_search d q k \<Rightarrow> [(d, q)]
                        | _ \<Rightarrow> []) t)"

text \<open>The language models handed to a chain in a run.\<close>

definition chained :: "'o event list \<Rightarrow> 'o list" where
  "chained t =
     concat (map (\<lambda>ev. case event_call ev of Call_chain p m \<Rightarrow> [m] | _ \<Rightarrow> []) t)"

text \<open>The calls of a run that load the language model or build the index.\<close>

definition build_calls :: "'o event list \<Rightarrow> 'o call list" where
  "build_calls t =
     concat (map (\<lambda>ev. case event_call ev of
                          Call_AutoModelForCausalLM_from_pretrained m c q a \<Rightarrow> [event_call ev]
                        | Call_FAISS_from_documents ds e \<Rightarrow> [event_call ev]
                        | _ \<Rightarrow> []) t)"

text \<open>The files handed to a loader in a run, each with the loader class.\<close>

definition loader_calls :: "'o event list \<Rightarrow> (loader \<times> string) list" where
  "loader_calls t =
     concat (map (\<lambda>ev. case event_call ev of
                          Call_loader loader_class file \<Rightarrow> [(loader_class, file)]
                        | _ \<Rightarrow> []) t)"

text \<open>The documents the loader mapped to a file's extension loads from the file.\<close>

definition file_documents :: "'o lib \<Rightarrow> string \<Rightarrow> document list" where
  "file_documents lib file =
     (case loaders (snd (os_path_splitext file)) of
        None \<Rightarrow> []
      | Some loader_class \<Rightarrow>
          (case loader_init lib loader_class file of
             Inl e \<Rightarrow> []
           | Inr loader \<Rightarrow> (case loader_load lib loader of Inl e \<Rightarrow> [] | Inr ds \<Rightarrow> ds)))"

text \<open>The entries \<open>glob\<close> returns for the six patterns of \<open>user_documents\<close>, in order,
  when it keeps its promise.\<close>

definition selected_files :: "'o lib \<Rightarrow> string \<Rightarrow> string list" where
  "selected_files lib directory =
     concat (map (\<lambda>extension. map (os_path_join (glob_dirname directory))
                    (filter (glob_matches extension) (listdir lib (glob_dirname directory))))
               file_extensions)"

section \<open>A concrete library, for evaluation\<close>

text \<open>A stable \<open>argsort\<close>, one of the functions numpy's promise allows.\<close>

definition argsort_stable :: "real list \<Rightarrow> nat list" where
  "argsort_stable scores = sort_key (\<lambda>i. scores ! i) [0..<length scores]"

definition doc :: "string \<Rightarrow> document" where
  "doc s = \<lparr>page_content = s, metadata = []\<rparr>"

text \<open>Library objects are numbers. The directory \<open>docs\<close> holds four entries, one of them
  hidden and one with an extension the script does not load.\<close>

definition lib0 :: "nat lib" where
  "lib0 = \<lparr>
     BitsAndBytesConfig = (\<lambda>a b c d. Inr 1),
     environ_get = (\<lambda>k. None),
     AutoConfig_from_pretrained = (\<lambda>m a. Inr 2),
     AutoModelForCausalLM_from_pretrained = (\<lambda>m c q a. Inr 3),
     model_eval = (\<lambda>m. Inr ()),
     AutoTokenizer_from_pretrained = (\<lambda>m a. Inr 4),
     pipeline = (\<lambda>m t. Inr 5),
     HuggingFacePipeline = (\<lambda>p. Inr 6),
     glob = (\<lambda>p. Inr (if p = ''docs/*.pdf'' then [''docs/b.pdf'']
                      else if p = ''docs/*.txt'' then [''docs/a.txt''] else [])),
     listdir = (\<lambda>d. if d = ''docs'' then [''a.txt'', ''.draft.txt'', ''b.pdf'', ''notes.md''] else []),
     isdir = (\<lambda>p. False),
     loader_init = (\<lambda>l f. Inr (length f)),
     loader_load = (\<lambda>l. Inr [doc ''text'']),
     CharacterTextSplitter = (\<lambda>n k. Inr 8),
     split_documents = (\<lambda>s ds. Inr ds),
     AutoModelForSequenceClassification_from_pretrained = (\<lambda>m. Inr 9),
     tokenizer_call = (\<lambda>t cs. Inr 10),
     logits = (\<lambda>m i. Inr [1 / 5, 9 / 10, 1 / 2, 7 / 10]),
     argsort = argsort_stable,
     similarity_search = (\<lambda>d q k. Inr [doc ''a'', doc ''b'', doc ''c'', doc ''d'']),
     from_template = (\<lambda>t. Inr 11),
     chain = (\<lambda>p m. Inr 12),
     invoke = (\<lambda>c q. Inr ''Paris''),
     HuggingFaceEmbeddings = (\<lambda>m. Inr 13),
     FAISS_from_documents = (\<lambda>ds e. Inr 14),
     py_print = (\<lambda>s. Inr ())\<rparr>"

text \<open>The same library with a reranker model that fails when it is run.\<close>

definition lib1 :: "nat lib" where
  "lib1 = lib0\<lparr>logits := (\<lambda>m i. Inl (LibraryError ''CUDA out of memory''))\<rparr>"

text \<open>A constructor that checks the compute dtype as the constructor of transformers
  does: a string is looked up in torch, a \<open>torch.dtype\<close> is taken as it is, and anything
  else raises \<open>ValueError\<close>.\<close>

definition BitsAndBytesConfig_checked :: "pyval \<Rightarrow> pyval \<Rightarrow> pyval \<Rightarrow> pyval \<Rightarrow> exn + nat" where
  "BitsAndBytesConfig_checked load_in_4bit bnb_4bit_quant_type bnb_4bit_use_double_quant
       bnb_4bit_compute_dtype =
     (case bnb_4bit_compute_dtype of
        PyNone \<Rightarrow> Inr 1
      | PyStr s \<Rightarrow>
          (if s \<in> set [''bfloat16'', ''float16'', ''float32''] then Inr 1
           else Inl (LibraryError ''AttributeError''))
      | PyObject n \<Rightarrow>
          (if n = ''torch.dtype'' then Inr 1
           else Inl (ValueError ''bnb_4bit_compute_dtype must be a string or a torch.dtype''))
      | _ \<Rightarrow> Inl (ValueError ''bnb_4bit_compute_dtype must be a string or a torch.dtype''))"

definition lib2 :: "nat lib" where
  "lib2 = lib0\<lparr>BitsAndBytesConfig := BitsAndBytesConfig_checked\<rparr>"

text \<open>A file system where \<open>docs\<close> also holds a directory named \<open>dir.txt\<close>, which no
  loader can load, and where the directory \<open>docs[1]\<close> holds \<open>a.txt\<close> and its sibling
  \<open>docs1\<close> holds \<open>b.txt\<close>: as a pattern, \<open>docs[1]/*.txt\<close> matches in \<open>docs1\<close>.\<close>

definition lib3 :: "nat lib" where
  "lib3 = lib0\<lparr>
     glob := (\<lambda>p. Inr (if p = ''docs/*.pdf'' then [''docs/b.pdf'']
                       else if p = ''docs/*.txt'' then [''docs/a.txt'', ''docs/dir.txt'']
                       else if p = ''docs[1]/*.txt'' then [''docs1/b.txt''] else [])),
     listdir := (\<lambda>d. if d = ''docs''
                      then [''a.txt'', ''.draft.txt'', ''b.pdf'', ''notes.md'', ''dir.txt'']
                      else if d = ''docs[1]'' then [''a.txt'']
                      else if d = ''docs1'' then [''b.txt''] else []),
     isdir := (\<lambda>p. p \<in> set [''docs'', ''docs[1]'', ''docs1'', ''docs/dir.txt'']),
     loader_init := (\<lambda>l f. Inr (if f = ''docs/dir.txt'' then 0 else length f)),
     loader_load := (\<lambda>l. if l = 0 then Inl (LibraryError ''Error loading docs/dir.txt'')
                          else Inr [doc ''text''])\<rparr>"

section \<open>Lemmas on sequencing and on reading runs\<close>

lemma and_then_call_Inr: "and_then (call c (Inr v)) f = (Returned c # fst (f v), snd (f v))"
  by (simp add: and_then_def call_def)

lemma and_then_call_Inl: "and_then (call c (Inl e)) f = ([Raised c e], Inl e)"
  by (simp add: and_then_def call_def)

lemma call_Inl: "call c (Inl e) = ([Raised c e], Inl e)"
  by (simp add: call_def)

lemma call_Inr: "call c (Inr v) = ([Returned c], Inr v)"
  by (simp add: call_def)

lemma and_then_pair_Inl: "and_then (t, Inl e) f = (t, Inl e)"
  by (simp add: and_then_def)

lemma and_then_pair_Inr: "and_then (t, Inr v) f = (t @ fst (f v), snd (f v))"
  by (simp add: and_then_def)

lemmas run_eval = call_Inl call_Inr and_then_pair_Inl and_then_pair_Inr ret_def raise_def
  computed_def

lemma and_then_Inr:
  "snd m = Inr v \<Longrightarrow> and_then m f = (fst m @ fst (f v), snd (f v))"
  by (simp add: and_then_def)

lemma fst_and_then: "fst (and_then m f) = fst m @ (case snd m of Inl e \<Rightarrow> [] | Inr v \<Rightarrow> fst (f v))"
  by (simp add: and_then_def split: sum.splits)

lemma take_fst_and_then: "n \<le> length (fst m) \<Longrightarrow> take n (fst (and_then m f)) = take n (fst m)"
  by (simp add: fst_and_then)

lemma snd_and_then: "snd (and_then m f) = (case snd m of Inl e \<Rightarrow> Inl e | Inr v \<Rightarrow> snd (f v))"
  by (simp add: and_then_def split: sum.splits)

lemma snd_call: "snd (call c r) = r"
  by (simp add: call_def split: sum.splits)

lemma fst_call: "fst (call c r) = [case r of Inl e \<Rightarrow> Raised c e | Inr v \<Rightarrow> Returned c]"
  by (simp add: call_def split: sum.splits)

lemma event_call_case: "event_call (case r of Inl e \<Rightarrow> Raised c e | Inr v \<Rightarrow> Returned c) = c"
  by (simp split: sum.splits)

lemma searched_simps:
  "searched [] = []"
  "searched (ev # t) =
     (case event_call ev of Call_similarity_search d q k \<Rightarrow> [(d, q)] | _ \<Rightarrow> []) @ searched t"
  "searched (t @ t') = searched t @ searched t'"
  by (simp_all add: searched_def)

lemma chained_simps:
  "chained [] = []"
  "chained (ev # t) = (case event_call ev of Call_chain p m \<Rightarrow> [m] | _ \<Rightarrow> []) @ chained t"
  "chained (t @ t') = chained t @ chained t'"
  by (simp_all add: chained_def)

lemma build_calls_simps:
  "build_calls [] = []"
  "build_calls (ev # t) =
     (case event_call ev of
        Call_AutoModelForCausalLM_from_pretrained m c q a \<Rightarrow> [event_call ev]
      | Call_FAISS_from_documents ds e \<Rightarrow> [event_call ev]
      | _ \<Rightarrow> []) @ build_calls t"
  "build_calls (t @ t') = build_calls t @ build_calls t'"
  by (simp_all add: build_calls_def)

lemma loader_calls_simps:
  "loader_calls [] = []"
  "loader_calls (ev # t) =
     (case event_call ev of Call_loader c f \<Rightarrow> [(c, f)] | _ \<Rightarrow> []) @ loader_calls t"
  "loader_calls (t @ t') = loader_calls t @ loader_calls t'"
  by (simp_all add: loader_calls_def)

section \<open>Runs with the concrete library\<close>

lemma argsort_stable_is_argsort: "is_argsort scores (argsort_stable scores)"
  by (auto simp: is_argsort_def argsort_stable_def)

lemma lib0_simps:
  "BitsAndBytesConfig lib0 a b c d = Inr 1"
  "environ_get lib0 k = None"
  "AutoConfig_from_pretrained lib0 m auth = Inr 2"
  "AutoModelForCausalLM_from_pretrained lib0 m mc q auth = Inr 3"
  "model_eval lib0 x = Inr ()"
  "AutoTokenizer_from_pretrained lib0 m auth = Inr 4"
  "pipeline lib0 x t = Inr 5"
  "HuggingFacePipeline lib0 p = Inr 6"
  "glob lib0 pat = Inr (if pat = ''docs/*.pdf'' then [''docs/b.pdf'']
                        else if pat = ''docs/*.txt'' then [''docs/a.txt''] else [])"
  "listdir lib0 dir = (if dir = ''docs'' then [''a.txt'', ''.draft.txt'', ''b.pdf'', ''notes.md'']
                       else [])"
  "loader_init lib0 l f = Inr (length f)"
  "loader_load lib0 ld = Inr [doc ''text'']"
  "CharacterTextSplitter lib0 n1 n2 = Inr 8"
  "split_documents lib0 sp ds = Inr ds"
  "AutoModelForSequenceClassification_from_pretrained lib0 m = Inr 9"
  "tokenizer_call lib0 t cs = Inr 10"
  "logits lib0 x i = Inr [1 / 5, 9 / 10, 1 / 2, 7 / 10]"
  "argsort lib0 = argsort_stable"
  "similarity_search lib0 db qu n = Inr [doc ''a'', doc ''b'', doc ''c'', doc ''d'']"
  "from_template lib0 tm = Inr 11"
  "chain lib0 p x = Inr 12"
  "invoke lib0 ch qu = Inr ''Paris''"
  "HuggingFaceEmbeddings lib0 m = Inr 13"
  "FAISS_from_documents lib0 ds em = Inr 14"
  "py_print lib0 str = Inr ()"
  by (simp_all add: lib0_def)

lemma lib1_simps:
  "AutoTokenizer_from_pretrained lib1 m auth = Inr 4"
  "AutoModelForSequenceClassification_from_pretrained lib1 m = Inr 9"
  "model_eval lib1 x = Inr ()"
  "tokenizer_call lib1 t cs = Inr 10"
  "logits lib1 x i = Inl (LibraryError ''CUDA out of memory'')"
  by (simp_all add: lib1_def lib0_def)

lemma lib0_argsort: "argsort lib0 [1 / 5, 9 / 10, 1 / 2, 7 / 10] = [0, 2, 3, 1]"
  by (simp add: lib0_simps argsort_stable_def upt_rec)

lemma lib0_rerank:
  "rerank lib0 (pre_rerank [doc ''a'', doc ''b'', doc ''c'', doc ''d''] q) =
     ([Returned (Call_AutoTokenizer_from_pretrained reranker_id None),
       Returned (Call_AutoModelForSequenceClassification_from_pretrained reranker_id),
       Returned (Call_eval 9),
       Returned (Call_tokenizer 4 [[q, ''a''], [q, ''b''], [q, ''c''], [q, ''d'']]),
       Returned (Call_logits 9 10)],
      Inr ''bdc'')"
  by (simp add: rerank_def pre_rerank_def doc_def lib0_simps(1-17,19-) and_then_call_Inr
      computed_def lib0_argsort top3_indices_def)

lemma lib0_llm:
  "llm lib0 q 14 6 =
     ([Returned (Call_similarity_search 14 q 25),
       Returned (Call_AutoTokenizer_from_pretrained reranker_id None),
       Returned (Call_AutoModelForSequenceClassification_from_pretrained reranker_id),
       Returned (Call_eval 9),
       Returned (Call_tokenizer 4 [[q, ''a''], [q, ''b''], [q, ''c''], [q, ''d'']]),
       Returned (Call_logits 9 10),
       Returned (Call_from_template (prompt_template ''bdc'' q)),
       Returned (Call_chain 11 6),
       Returned (Call_invoke 12 q)],
      Inr ''Paris'')"
  by (simp add: llm_def lib0_simps(1-17,19-) lib0_rerank run_eval)

lemma lib0_init_model:
  "init_model lib0 cfg default_model_id =
     ([Returned (Call_AutoConfig_from_pretrained default_model_id None),
       Returned (Call_AutoModelForCausalLM_from_pretrained default_model_id 2 cfg None),
       Returned (Call_eval 3),
       Returned (Call_AutoTokenizer_from_pretrained default_model_id None),
       Returned (Call_pipeline 3 4),
       Returned (Call_HuggingFacePipeline 5)],
      Inr 6)"
  by (simp add: init_model_def Let_def lib0_simps run_eval)

lemma lib0_user_documents:
  "user_documents lib0 ''docs'' =
     ([Returned (Call_glob ''docs/*.pdf''), Returned (Call_glob ''docs/*.docx''),
       Returned (Call_glob ''docs/*.doc''), Returned (Call_glob ''docs/*.txt''),
       Returned (Call_glob ''docs/*.xlsx''), Returned (Call_glob ''docs/*.pptx''),
       Returned (Call_loader PyPDFLoader ''docs/b.pdf''), Returned (Call_load 10),
       Returned (Call_loader TextLoader ''docs/a.txt''), Returned (Call_load 10),
       Returned (Call_CharacterTextSplitter 1000 0),
       Returned (Call_split_documents 8 [doc ''text'', doc ''text''])],
      Inr [doc ''text'', doc ''text''])"
  by (simp add: user_documents_def file_extensions_def os_path_join_def lib0_simps
      run_eval os_path_splitext_def loaders_def)

lemma glob_dirname_docs: "glob_dirname ''docs'' = ''docs''"
  by (simp add: glob_dirname_def)

lemma lib0_glob_contract: "glob_contract lib0 ''docs''"
  by (simp add: glob_contract_def glob_dirname_docs file_extensions_def lib0_simps
      os_path_join_def glob_matches_def suffix_Cons)

lemma lib0_selected_files: "selected_files lib0 ''docs'' = [''docs/b.pdf'', ''docs/a.txt'']"
  by (simp add: selected_files_def glob_dirname_docs file_extensions_def lib0_simps
      os_path_join_def glob_matches_def suffix_Cons)

lemma lib2_simps:
  "BitsAndBytesConfig lib2 = BitsAndBytesConfig_checked"
  by (simp add: lib2_def)

lemma lib3_simps:
  "glob lib3 pat = Inr (if pat = ''docs/*.pdf'' then [''docs/b.pdf'']
                        else if pat = ''docs/*.txt'' then [''docs/a.txt'', ''docs/dir.txt'']
                        else if pat = ''docs[1]/*.txt'' then [''docs1/b.txt''] else [])"
  "listdir lib3 dir = (if dir = ''docs''
                       then [''a.txt'', ''.draft.txt'', ''b.pdf'', ''notes.md'', ''dir.txt'']
                       else if dir = ''docs[1]'' then [''a.txt'']
                       else if dir = ''docs1'' then [''b.txt''] else [])"
  "isdir lib3 p = (p \<in> set [''docs'', ''docs[1]'', ''docs1'', ''docs/dir.txt''])"
  "loader_init lib3 l f = Inr (if f = ''docs/dir.txt'' then 0 else length f)"
  "loader_load lib3 ld = (if ld = 0 then Inl (LibraryError ''Error loading docs/dir.txt'')
                           else Inr [doc ''text''])"
  "CharacterTextSplitter lib3 n1 n2 = Inr 8"
  "split_documents lib3 sp ds = Inr ds"
  by (simp_all add: lib3_def lib0_def)

lemma lib3_glob_contract: "glob_contract lib3 ''docs''"
  by (simp add: glob_contract_def glob_dirname_docs file_extensions_def lib3_simps
      os_path_join_def glob_matches_def suffix_Cons)

lemma lib3_user_documents:
  "user_documents lib3 ''docs'' =
     ([Returned (Call_glob ''docs/*.pdf''), Returned (Call_glob ''docs/*.docx''),
       Returned (Call_glob ''docs/*.doc''), Returned (Call_glob ''docs/*.txt''),
       Returned (Call_glob ''docs/*.xlsx''), Returned (Call_glob ''docs/*.pptx''),
       Returned (Call_loader PyPDFLoader ''docs/b.pdf''), Returned (Call_load 10),
       Returned (Call_loader TextLoader ''docs/a.txt''), Returned (Call_load 10),
       Returned (Call_loader TextLoader ''docs/dir.txt''),
       Raised (Call_load 0) (LibraryError ''Error loading docs/dir.txt'')],
      Inl (LibraryError ''Error loading docs/dir.txt''))"
  by (simp add: user_documents_def file_extensions_def os_path_join_def lib3_simps
      run_eval os_path_splitext_def loaders_def)

lemma lib3_user_documents_pattern:
  "user_documents lib3 ''docs[1]'' =
     ([Returned (Call_glob ''docs[1]/*.pdf''), Returned (Call_glob ''docs[1]/*.docx''),
       Returned (Call_glob ''docs[1]/*.doc''), Returned (Call_glob ''docs[1]/*.txt''),
       Returned (Call_glob ''docs[1]/*.xlsx''), Returned (Call_glob ''docs[1]/*.pptx''),
       Returned (Call_loader TextLoader ''docs1/b.txt''), Returned (Call_load 11),
       Returned (Call_CharacterTextSplitter 1000 0),
       Returned (Call_split_documents 8 [doc ''text''])],
      Inr [doc ''text''])"
  by (simp add: user_documents_def file_extensions_def os_path_join_def lib3_simps
      run_eval os_path_splitext_def loaders_def)

section \<open>Properties of pre\_rerank and rerank\<close>

text \<open>Claim C8: \<open>pre_rerank\<close> returns a list as long as \<open>docs\<close>, in the same order, whose
  \<open>i\<close>-th element is the two-element list of the question and the page content of the
  \<open>i\<close>-th document. The function only reads \<open>docs\<close>: the embedding is a pure function
  of the list, which it cannot change.\<close>

theorem pre_rerank_pairs:
  "length (pre_rerank docs question) = length docs \<and>
   (\<forall>i<length docs. pre_rerank docs question ! i = [question, page_content (docs ! i)])"
  by (simp add: pre_rerank_def)

theorem pre_rerank_pairs_witness:
  "length (pre_rerank [doc ''a'', doc ''b''] ''q'') = 2 \<and>
   pre_rerank [doc ''a'', doc ''b''] ''q'' ! 1 = [''q'', ''b'']"
  using pre_rerank_pairs [of "[doc ''a'', doc ''b'']" "''q''"]
  by (simp add: doc_def)

lemma rerank_loop_ok:
  "\<forall>i\<in>set sel. i < length contents \<and> 1 < length (contents ! i) \<Longrightarrow>
   rerank_loop contents sel acc = Inr (acc @ concat (map (\<lambda>i. contents ! i ! 1) sel))"
  by (induction sel arbitrary: acc) simp_all

lemma rerank_loop_Inr:
  "rerank_loop contents sel acc = Inr ctx \<Longrightarrow>
   ctx = acc @ concat (map (\<lambda>i. contents ! i ! 1) sel) \<and> (\<forall>i\<in>set sel. i < length contents)"
proof (induction sel arbitrary: acc)
  case Nil
  then show ?case by simp
next
  case (Cons a sel)
  from Cons.prems have ok: "a < length contents" "1 < length (contents ! a)"
    by (auto split: if_splits)
  with Cons.prems have "rerank_loop contents sel (acc @ contents ! a ! 1) = Inr ctx"
    by simp
  from Cons.IH [OF this] ok show ?case by simp
qed

lemma top3_indices_set: "set (top3_indices idx) \<subseteq> set idx"
  by (auto simp: top3_indices_def dest: in_set_dropD)

lemma top3_indices_length: "length (top3_indices idx) = min 3 (length idx)"
  by (simp add: top3_indices_def)

lemma top3_indices_distinct: "distinct idx \<Longrightarrow> distinct (top3_indices idx)"
  by (simp add: top3_indices_def)

lemma is_argsort_length: "is_argsort scores idx \<Longrightarrow> length idx = length scores"
  using distinct_card[of idx] by (simp add: is_argsort_def)

lemma top3_indices_descending:
  "sorted (map f idx) \<Longrightarrow> sorted (rev (map f (top3_indices idx)))"
  by (simp add: top3_indices_def rev_map[symmetric] drop_map[symmetric])

lemma top3_indices_highest:
  assumes "sorted (map f idx)" and "j \<in> set idx" and "j \<notin> set (top3_indices idx)"
    and "i \<in> set (top3_indices idx)"
  shows "(f j :: real) \<le> f i"
proof -
  define k where "k = (if 3 \<le> length idx then length idx - 3 else 0)"
  have tp: "set (top3_indices idx) = set (drop k idx)"
    by (simp add: top3_indices_def k_def)
  have "idx = take k idx @ drop k idx" by simp
  then have s: "sorted (map f (take k idx) @ map f (drop k idx))"
    using assms(1) by (metis map_append)
  have "j \<in> set (take k idx)"
    using assms(2,3) tp by (metis Un_iff append_take_drop_id set_append)
  moreover have "i \<in> set (drop k idx)" using assms(4) tp by simp
  ultimately show ?thesis using s by (auto simp: sorted_append)
qed

text \<open>Claim C1: when the reranker's calls return, one score per pair, and \<open>np.argsort\<close>
  keeps its promise, \<open>rerank\<close> returns the concatenation of the second fields (the page
  contents) of the selected pairs, unchanged, in the order of selection; the selection has
  \<open>min 3 n\<close> distinct valid indices (three as soon as there are three pairs), its scores
  descend, and no pair left out scores higher than a selected one.\<close>

theorem rerank_top3_concatenation:
  assumes tok: "AutoTokenizer_from_pretrained lib reranker_id None = Inr tokenizer"
    and mdl: "AutoModelForSequenceClassification_from_pretrained lib reranker_id = Inr model"
    and ev: "model_eval lib model = Inr u"
    and inp: "tokenizer_call lib tokenizer contents = Inr inputs"
    and sc: "logits lib model inputs = Inr scores"
    and len: "length scores = length contents"
    and pairs: "\<forall>c\<in>set contents. length c = 2"
    and srt: "is_argsort scores (argsort lib scores)"
  shows "snd (rerank lib contents) =
           Inr (concat (map (\<lambda>i. contents ! i ! 1) (top3_indices (argsort lib scores)))) \<and>
         length (top3_indices (argsort lib scores)) = min 3 (length contents) \<and>
         distinct (top3_indices (argsort lib scores)) \<and>
         (\<forall>i\<in>set (top3_indices (argsort lib scores)). i < length contents) \<and>
         sorted (rev (map (\<lambda>i. scores ! i) (top3_indices (argsort lib scores)))) \<and>
         (\<forall>j<length contents. j \<notin> set (top3_indices (argsort lib scores)) \<longrightarrow>
            (\<forall>i\<in>set (top3_indices (argsort lib scores)). scores ! j \<le> scores ! i))"
proof -
  let ?idx = "argsort lib scores"
  let ?sel = "top3_indices ?idx"
  have idx: "distinct ?idx" "set ?idx = {..<length contents}" "sorted (map (\<lambda>i. scores ! i) ?idx)"
    using srt len by (simp_all add: is_argsort_def)
  have bound: "\<forall>i\<in>set ?sel. i < length contents"
    using top3_indices_set [of ?idx] idx(2) by auto
  then have ok: "\<forall>i\<in>set ?sel. i < length contents \<and> 1 < length (contents ! i)"
    using pairs by simp
  have res: "snd (rerank lib contents) = Inr (concat (map (\<lambda>i. contents ! i ! 1) ?sel))"
    using tok mdl ev inp sc
    by (simp add: rerank_def and_then_call_Inr rerank_loop_ok [OF ok] computed_def)
  have n: "length ?sel = min 3 (length contents)"
    using is_argsort_length [OF srt] len by (simp add: top3_indices_length)
  have high: "\<forall>j<length contents. j \<notin> set ?sel \<longrightarrow> (\<forall>i\<in>set ?sel. scores ! j \<le> scores ! i)"
    using top3_indices_highest [OF idx(3)] idx(2) by auto
  show ?thesis
    using res n top3_indices_distinct [OF idx(1)] bound top3_indices_descending [OF idx(3)] high
    by simp
qed

theorem rerank_top3_concatenation_witness:
  "is_argsort [1 / 5, 9 / 10, 1 / 2, 7 / 10] (argsort lib0 [1 / 5, 9 / 10, 1 / 2, 7 / 10]) \<and>
   top3_indices (argsort lib0 [1 / 5, 9 / 10, 1 / 2, 7 / 10]) = [1, 3, 2] \<and>
   snd (rerank lib0 [[''q'', ''a''], [''q'', ''b''], [''q'', ''c''], [''q'', ''d'']]) = Inr ''bdc''"
proof -
  let ?scores = "[1 / 5, 9 / 10, 1 / 2, 7 / 10] :: real list"
  let ?contents = "[[''q'', ''a''], [''q'', ''b''], [''q'', ''c''], [''q'', ''d'']]"
  have srt: "is_argsort ?scores (argsort lib0 ?scores)"
    by (simp add: lib0_simps argsort_stable_is_argsort)
  have sel: "top3_indices (argsort lib0 ?scores) = [1, 3, 2]"
    by (simp add: lib0_argsort top3_indices_def)
  have "snd (rerank lib0 ?contents) =
          Inr (concat (map (\<lambda>i. ?contents ! i ! 1) (top3_indices (argsort lib0 ?scores))))"
    using rerank_top3_concatenation [of lib0 4 9 "()" ?contents 10 ?scores, OF _ _ _ _ _ _ _ srt]
    by (simp add: lib0_simps)
  then show ?thesis using srt sel by simp
qed

text \<open>Claim C9: for any \<open>argsort\<close> result over as many scores as there are pairs, every
  index of the top-3 slice is a valid index into \<open>contents\<close>; with fewer than three
  pairs the slice holds all of them; and the concatenation loop raises no \<open>IndexError\<close>.\<close>

theorem rerank_top3_in_bounds:
  assumes "is_argsort scores idx" and "length scores = length contents"
    and "\<forall>c\<in>set contents. length c = 2"
  shows "(\<forall>i\<in>set (top3_indices idx). i < length contents) \<and>
         (length contents < 3 \<longrightarrow>
            length (top3_indices idx) = length contents \<and>
            set (top3_indices idx) = {..<length contents}) \<and>
         rerank_loop contents (top3_indices idx) [] \<noteq> Inl IndexError"
proof -
  have idx: "distinct idx" "set idx = {..<length contents}" "length idx = length contents"
    using assms(1,2) is_argsort_length [OF assms(1)] by (simp_all add: is_argsort_def)
  have bound: "\<forall>i\<in>set (top3_indices idx). i < length contents"
    using top3_indices_set [of idx] idx(2) by auto
  have small: "length contents < 3 \<Longrightarrow> top3_indices idx = rev idx"
    using idx(3) by (simp add: top3_indices_def)
  have ok: "\<forall>i\<in>set (top3_indices idx). i < length contents \<and> 1 < length (contents ! i)"
    using bound assms(3) by simp
  show ?thesis
    using bound small idx by (auto simp: rerank_loop_ok [OF ok])
qed

theorem rerank_top3_in_bounds_witness:
  "is_argsort [1 / 2, 1 / 5] [1, 0] \<and> top3_indices [1, 0] = [0, 1] \<and>
   rerank_loop [[''q'', ''a''], [''q'', ''b'']] (top3_indices [1, 0]) [] \<noteq> Inl IndexError"
proof -
  have srt: "is_argsort [1 / 2, 1 / 5] [1, 0]"
    by (auto simp: is_argsort_def)
  show ?thesis
    using srt rerank_top3_in_bounds [OF srt, of "[[''q'', ''a''], [''q'', ''b'']]"]
    by (simp add: top3_indices_def)
qed

lemma rerank_trace:
  "searched (fst (rerank lib contents)) = [] \<and> chained (fst (rerank lib contents)) = [] \<and>
   build_calls (fst (rerank lib contents)) = []"
  by (simp add: rerank_def fst_and_then fst_call event_call_case computed_def
      searched_simps chained_simps build_calls_simps split: sum.splits)

lemma rerank_Inr:
  assumes "snd (rerank lib contents) = Inr context"
  shows "\<exists>sel. length sel \<le> 3 \<and> (\<forall>i\<in>set sel. i < length contents) \<and>
           context = concat (map (\<lambda>i. contents ! i ! 1) sel)"
proof -
  from assms obtain scores where
    "rerank_loop contents (top3_indices (argsort lib scores)) [] = Inr context"
    by (auto simp: rerank_def snd_and_then snd_call computed_def split: sum.splits)
  from rerank_loop_Inr [OF this] top3_indices_length [of "argsort lib scores"]
  show ?thesis
    by (intro exI [of _ "top3_indices (argsort lib scores)"]) simp
qed

section \<open>No recovery from a failed library call\<close>

lemma propagates_Inr_append:
  "propagates t (Inr v :: exn + 'a) \<Longrightarrow> propagates (t @ t') (r :: exn + 'b) = propagates t' r"
proof (induction t)
  case Nil
  then show ?case by simp
next
  case (Cons ev t)
  then show ?case by (cases ev) simp_all
qed

lemma propagates_Inl_any:
  "propagates t (Inl e :: exn + 'a) \<Longrightarrow> propagates t (Inl e :: exn + 'b)"
proof (induction t)
  case Nil
  then show ?case by simp
next
  case (Cons ev t)
  then show ?case by (cases ev) simp_all
qed

lemma no_recovery_ret: "no_recovery (ret v)"
  by (simp add: no_recovery_def ret_def)

lemma no_recovery_raise: "no_recovery (raise e)"
  by (simp add: no_recovery_def raise_def)

lemma no_recovery_computed: "no_recovery (computed r)"
  by (simp add: no_recovery_def computed_def)

lemma no_recovery_call: "no_recovery (call c r)"
  by (simp add: no_recovery_def call_def split: sum.splits)

lemma no_recovery_and_then:
  assumes "no_recovery m" and "\<And>v. snd m = Inr v \<Longrightarrow> no_recovery (f v)"
  shows "no_recovery (and_then m f)"
proof (cases "snd m")
  case (Inl e)
  then show ?thesis
    using assms(1) propagates_Inl_any [of "fst m" e]
    by (simp add: no_recovery_def and_then_def)
next
  case (Inr v)
  then show ?thesis
    using assms(1) assms(2) [OF Inr] propagates_Inr_append [of "fst m" v "fst (f v)" "snd (f v)"]
    by (simp add: no_recovery_def and_then_def)
qed

lemmas no_recovery_intros =
  no_recovery_and_then no_recovery_call no_recovery_ret no_recovery_raise no_recovery_computed

lemma no_recovery_init_bnb_config: "no_recovery (init_bnb_config lib a b c d)"
  by (simp add: init_bnb_config_def no_recovery_call no_recovery_raise)

lemma no_recovery_init_model: "no_recovery (init_model lib bnb_config model_id)"
  unfolding init_model_def Let_def by (intro no_recovery_intros)

lemma no_recovery_rerank: "no_recovery (rerank lib contents)"
  unfolding rerank_def by (intro no_recovery_intros)

lemma no_recovery_glob_extensions: "no_recovery (glob_extensions lib directory exts files)"
  by (induction exts arbitrary: files) (auto intro!: no_recovery_intros)

lemma no_recovery_load_files: "no_recovery (load_files lib files documents)"
  by (induction files arbitrary: documents) (auto intro!: no_recovery_intros split: option.splits)

lemma no_recovery_user_documents: "no_recovery (user_documents lib directory)"
  unfolding user_documents_def
  by (intro no_recovery_intros no_recovery_glob_extensions no_recovery_load_files)

lemma no_recovery_llm: "no_recovery (llm lib question db model)"
  unfolding llm_def by (intro no_recovery_intros no_recovery_rerank)

lemma no_recovery_query: "no_recovery (query lib question docs_path)"
  unfolding query_def init_bnb_config_defaults_def
  by (intro no_recovery_intros no_recovery_init_bnb_config no_recovery_init_model
      no_recovery_user_documents no_recovery_llm)

lemma no_recovery_py_input: "no_recovery (py_input prompt stdin)"
  by (simp add: py_input_def no_recovery_call split: list.splits)

lemma no_recovery_cli_loop: "no_recovery (cli_loop lib db model question stdin)"
  by (induction stdin arbitrary: question)
     (auto intro!: no_recovery_intros no_recovery_llm)

lemma no_recovery_main: "no_recovery (main lib stdin)"
  unfolding main_def init_bnb_config_defaults_def
  by (intro no_recovery_intros no_recovery_init_bnb_config no_recovery_init_model
      no_recovery_user_documents no_recovery_py_input no_recovery_cli_loop)

text \<open>Claim C5: in every run of \<open>user_documents\<close>, \<open>rerank\<close>, \<open>llm\<close>, \<open>query\<close>, the
  command-line loop and the whole main block, a library call that raises is the last
  call made, and the run ends with the very exception it raised: nothing is caught,
  retried or replaced by a fallback.\<close>

theorem no_failure_recovery:
  "no_recovery (user_documents lib directory) \<and>
   no_recovery (rerank lib contents) \<and>
   no_recovery (llm lib question db model) \<and>
   no_recovery (query lib question docs_path) \<and>
   no_recovery (cli_loop lib db model question stdin) \<and>
   no_recovery (main lib stdin)"
  by (simp add: no_recovery_user_documents no_recovery_rerank no_recovery_llm no_recovery_query
      no_recovery_cli_loop no_recovery_main)

theorem no_failure_recovery_witness:
  "no_recovery (rerank lib1 [[''q'', ''a'']]) \<and>
   rerank lib1 [[''q'', ''a'']] =
     ([Returned (Call_AutoTokenizer_from_pretrained reranker_id None),
       Returned (Call_AutoModelForSequenceClassification_from_pretrained reranker_id),
       Returned (Call_eval 9),
       Returned (Call_tokenizer 4 [[''q'', ''a'']]),
       Raised (Call_logits 9 10) (LibraryError ''CUDA out of memory'')],
      Inl (LibraryError ''CUDA out of memory''))"
  using no_failure_recovery [of lib1 "''docs''" "[[''q'', ''a'']]" "''q''" 14 6 "''docs''" "[]"]
  by (simp add: rerank_def lib1_simps and_then_call_Inr and_then_call_Inl)

section \<open>Properties of init\_bnb\_config and init\_model\<close>

text \<open>Claim C7, as stated, fails on well-typed arguments that the constructor rejects:
  \<open>False\<close>, \<open>'fp4'\<close>, \<open>False\<close> and the class \<open>float\<close> pass the four \<open>isinstance\<close> checks, and
  the call ends with the \<open>ValueError\<close> of a constructor that wants a string or a
  \<open>torch.dtype\<close>.\<close>

theorem init_bnb_config_well_typed_counterexample:
  "isinstance_bool (PyBool False) \<and> isinstance_str (PyStr ''fp4'') \<and>
   isinstance_bool (PyBool False) \<and> isinstance_type (PyType ''float'') \<and>
   init_bnb_config lib2 (PyBool False) (PyStr ''fp4'') (PyBool False) (PyType ''float'') =
     ([Raised (Call_BitsAndBytesConfig (PyBool False) (PyStr ''fp4'') (PyBool False)
                 (PyType ''float''))
         (ValueError ''bnb_4bit_compute_dtype must be a string or a torch.dtype'')],
      Inl (ValueError ''bnb_4bit_compute_dtype must be a string or a torch.dtype''))"
  by (simp add: init_bnb_config_def isinstance_bool_def isinstance_str_def isinstance_type_def
      lib2_simps BitsAndBytesConfig_checked_def call_Inl)

text \<open>Claim C7, amended: \<open>init_bnb_config\<close> raises a \<open>ValueError\<close> if and only if one of its
  arguments has the wrong type (\<open>load_in_4bit\<close> or \<open>bnb_4bit_use_double_quant\<close> not a
  boolean, \<open>bnb_4bit_quant_type\<close> not a string, \<open>bnb_4bit_compute_dtype\<close> neither a type
  nor a string) or the constructor of \<open>BitsAndBytesConfig\<close> raises one; the \<open>ValueError\<close>
  is the function's own, raised before any library call, exactly when an argument has the
  wrong type. When all four arguments are well-typed, in particular with all defaults,
  it makes the one constructor call with the four arguments and ends as the constructor
  does: it returns a configuration object if and only if the constructor returns one,
  and that is the object it returns.\<close>

theorem init_bnb_config_ValueError_iff:
  "((\<exists>msg. snd (init_bnb_config lib a b c d) = Inl (ValueError msg)) \<longleftrightarrow>
      \<not> (isinstance_bool a \<and> isinstance_str b \<and> isinstance_bool c \<and>
         (isinstance_type d \<or> isinstance_str d)) \<or>
      (\<exists>msg. BitsAndBytesConfig lib a b c d = Inl (ValueError msg))) \<and>
   ((\<exists>msg. init_bnb_config lib a b c d = raise (ValueError msg)) \<longleftrightarrow>
      \<not> (isinstance_bool a \<and> isinstance_str b \<and> isinstance_bool c \<and>
         (isinstance_type d \<or> isinstance_str d))) \<and>
   ((\<exists>cfg. snd (init_bnb_config lib a b c d) = Inr cfg) \<longleftrightarrow>
      isinstance_bool a \<and> isinstance_str b \<and> isinstance_bool c \<and>
      (isinstance_type d \<or> isinstance_str d) \<and>
      (\<exists>cfg. BitsAndBytesConfig lib a b c d = Inr cfg)) \<and>
   (isinstance_bool a \<and> isinstance_str b \<and> isinstance_bool c \<and>
      (isinstance_type d \<or> isinstance_str d) \<longrightarrow>
      init_bnb_config lib a b c d =
        call (Call_BitsAndBytesConfig a b c d) (BitsAndBytesConfig lib a b c d) \<and>
      snd (init_bnb_config lib a b c d) = BitsAndBytesConfig lib a b c d) \<and>
   init_bnb_config_defaults lib =
     call (Call_BitsAndBytesConfig (PyBool True) (PyStr ''nf4'') (PyBool True) (PyStr ''bfloat16''))
       (BitsAndBytesConfig lib (PyBool True) (PyStr ''nf4'') (PyBool True) (PyStr ''bfloat16'')) \<and>
   snd (init_bnb_config_defaults lib) =
     BitsAndBytesConfig lib (PyBool True) (PyStr ''nf4'') (PyBool True) (PyStr ''bfloat16'')"
  by (auto simp: init_bnb_config_def init_bnb_config_defaults_def raise_def call_def
      isinstance_bool_def isinstance_str_def isinstance_type_def split: sum.splits)

theorem init_bnb_config_ValueError_iff_witness:
  "(\<exists>msg. init_bnb_config lib2 (PyInt 1) (PyStr ''nf4'') (PyBool True) (PyStr ''bfloat16'') =
           raise (ValueError msg)) \<and>
   (\<exists>msg. snd (init_bnb_config lib2 (PyBool False) (PyStr ''fp4'') (PyBool False)
                 (PyType ''float'')) = Inl (ValueError msg)) \<and>
   snd (init_bnb_config_defaults lib2) = Inr 1"
proof -
  note ill = init_bnb_config_ValueError_iff
    [of lib2 "PyInt 1" "PyStr ''nf4''" "PyBool True" "PyStr ''bfloat16''"]
  note rejected = init_bnb_config_ValueError_iff
    [of lib2 "PyBool False" "PyStr ''fp4''" "PyBool False" "PyType ''float''"]
  have own: "\<exists>msg. init_bnb_config lib2 (PyInt 1) (PyStr ''nf4'') (PyBool True)
      (PyStr ''bfloat16'') = raise (ValueError msg)"
    using ill [THEN conjunct2, THEN conjunct1] by (simp add: isinstance_bool_def)
  have lib: "\<exists>msg. snd (init_bnb_config lib2 (PyBool False) (PyStr ''fp4'') (PyBool False)
      (PyType ''float'')) = Inl (ValueError msg)"
    using rejected [THEN conjunct1]
    by (simp add: lib2_simps BitsAndBytesConfig_checked_def)
  have defaults: "snd (init_bnb_config_defaults lib2) = Inr 1"
    using ill [THEN conjunct2, THEN conjunct2, THEN conjunct2, THEN conjunct2, THEN conjunct2]
    by (simp add: lib2_simps BitsAndBytesConfig_checked_def)
  from own lib defaults show ?thesis by blast
qed

lemma init_bnb_config_defaults_run:
  "init_bnb_config_defaults lib =
     call (Call_BitsAndBytesConfig (PyBool True) (PyStr ''nf4'') (PyBool True) (PyStr ''bfloat16''))
       (BitsAndBytesConfig lib (PyBool True) (PyStr ''nf4'') (PyBool True) (PyStr ''bfloat16''))"
  by (simp add: init_bnb_config_defaults_def init_bnb_config_def isinstance_bool_def
      isinstance_str_def)

lemma init_model_first_two:
  assumes "AutoConfig_from_pretrained lib model_id (environ_get lib ''HF_AUTH'') = Inr model_config"
  shows "map event_call (take 2 (fst (init_model lib bnb_config model_id))) =
           [Call_AutoConfig_from_pretrained model_id (environ_get lib ''HF_AUTH''),
            Call_AutoModelForCausalLM_from_pretrained model_id model_config bnb_config
              (environ_get lib ''HF_AUTH'')] \<and>
         2 \<le> length (fst (init_model lib bnb_config model_id))"
  using assms
  by (cases "AutoModelForCausalLM_from_pretrained lib model_id model_config bnb_config
        (environ_get lib ''HF_AUTH'')")
     (simp_all add: init_model_def Let_def and_then_call_Inr and_then_call_Inl)

lemma build_calls_init_model:
  assumes "AutoConfig_from_pretrained lib model_id (environ_get lib ''HF_AUTH'') = Inr model_config"
  shows "build_calls (fst (init_model lib bnb_config model_id)) =
           [Call_AutoModelForCausalLM_from_pretrained model_id model_config bnb_config
              (environ_get lib ''HF_AUTH'')]"
  using assms
  by (simp add: init_model_def Let_def build_calls_def fst_and_then call_def split: sum.splits)

lemma init_model_success:
  assumes "AutoConfig_from_pretrained lib model_id (environ_get lib ''HF_AUTH'') = Inr model_config"
    and "AutoModelForCausalLM_from_pretrained lib model_id model_config bnb_config
           (environ_get lib ''HF_AUTH'') = Inr model"
    and "model_eval lib model = Inr u"
    and "AutoTokenizer_from_pretrained lib model_id (environ_get lib ''HF_AUTH'') = Inr tokenizer"
    and "pipeline lib model tokenizer = Inr generate_text"
    and "HuggingFacePipeline lib generate_text = Inr hf"
  shows "init_model lib bnb_config model_id =
     ([Returned (Call_AutoConfig_from_pretrained model_id (environ_get lib ''HF_AUTH'')),
       Returned (Call_AutoModelForCausalLM_from_pretrained model_id model_config bnb_config
                   (environ_get lib ''HF_AUTH'')),
       Returned (Call_eval model),
       Returned (Call_AutoTokenizer_from_pretrained model_id (environ_get lib ''HF_AUTH'')),
       Returned (Call_pipeline model tokenizer),
       Returned (Call_HuggingFacePipeline generate_text)],
      Inr hf)"
  using assms by (simp add: init_model_def Let_def and_then_def call_def)

lemma take3_setup:
  assumes cfg: "BitsAndBytesConfig lib (PyBool True) (PyStr ''nf4'') (PyBool True) (PyStr ''bfloat16'') =
             Inr cfg"
    and mc: "AutoConfig_from_pretrained lib default_model_id (environ_get lib ''HF_AUTH'') =
             Inr model_config"
  shows "map event_call (take 3 (fst (and_then (init_bnb_config_defaults lib) (\<lambda>bnb_config.
            and_then (init_model lib bnb_config default_model_id) f)))) =
         [Call_BitsAndBytesConfig (PyBool True) (PyStr ''nf4'') (PyBool True) (PyStr ''bfloat16''),
          Call_AutoConfig_from_pretrained default_model_id (environ_get lib ''HF_AUTH''),
          Call_AutoModelForCausalLM_from_pretrained default_model_id model_config cfg
            (environ_get lib ''HF_AUTH'')]"
proof -
  have "take 3 (fst (and_then (init_bnb_config_defaults lib) (\<lambda>bnb_config.
            and_then (init_model lib bnb_config default_model_id) f))) =
        Returned (Call_BitsAndBytesConfig (PyBool True) (PyStr ''nf4'') (PyBool True)
                    (PyStr ''bfloat16''))
        # take 2 (fst (and_then (init_model lib cfg default_model_id) f))"
    using cfg by (simp add: init_bnb_config_defaults_run and_then_call_Inr numeral_3_eq_3 numeral_2_eq_2)
  also have "take 2 (fst (and_then (init_model lib cfg default_model_id) f)) =
        take 2 (fst (init_model lib cfg default_model_id))"
    using init_model_first_two [OF mc, of cfg] by (simp add: take_fst_and_then)
  finally show ?thesis
    using init_model_first_two [OF mc, of cfg] by simp
qed

text \<open>Claim C6: \<open>init_bnb_config()\<close> makes one call, the constructor of
  \<open>BitsAndBytesConfig\<close> with \<open>True\<close>, \<open>'nf4'\<close>, \<open>True\<close>, \<open>'bfloat16'\<close>, and returns its object;
  \<open>init_model\<close> hands that object, as it is, to the model loader as the quantization
  configuration, in \<open>query\<close> and in the main block alike; and \<open>init_model\<close> consists of
  six library calls and returns the pipeline object of the last one.\<close>

theorem init_model_passes_bnb_config:
  assumes cfg: "BitsAndBytesConfig lib (PyBool True) (PyStr ''nf4'') (PyBool True) (PyStr ''bfloat16'') =
             Inr cfg"
    and mc: "AutoConfig_from_pretrained lib default_model_id (environ_get lib ''HF_AUTH'') =
             Inr model_config"
  shows "init_bnb_config_defaults lib =
           ([Returned (Call_BitsAndBytesConfig (PyBool True) (PyStr ''nf4'') (PyBool True)
                         (PyStr ''bfloat16''))], Inr cfg) \<and>
         build_calls (fst (init_model lib cfg default_model_id)) =
           [Call_AutoModelForCausalLM_from_pretrained default_model_id model_config cfg
              (environ_get lib ''HF_AUTH'')] \<and>
         map event_call (take 3 (fst (query lib question docs_path))) =
           [Call_BitsAndBytesConfig (PyBool True) (PyStr ''nf4'') (PyBool True) (PyStr ''bfloat16''),
            Call_AutoConfig_from_pretrained default_model_id (environ_get lib ''HF_AUTH''),
            Call_AutoModelForCausalLM_from_pretrained default_model_id model_config cfg
              (environ_get lib ''HF_AUTH'')] \<and>
         map event_call (take 3 (fst (main lib stdin))) =
           [Call_BitsAndBytesConfig (PyBool True) (PyStr ''nf4'') (PyBool True) (PyStr ''bfloat16''),
            Call_AutoConfig_from_pretrained default_model_id (environ_get lib ''HF_AUTH''),
            Call_AutoModelForCausalLM_from_pretrained default_model_id model_config cfg
              (environ_get lib ''HF_AUTH'')] \<and>
         (\<forall>model tokenizer generate_text hf.
            AutoModelForCausalLM_from_pretrained lib default_model_id model_config cfg
              (environ_get lib ''HF_AUTH'') = Inr model \<and>
            model_eval lib model = Inr () \<and>
            AutoTokenizer_from_pretrained lib default_model_id (environ_get lib ''HF_AUTH'') =
              Inr tokenizer \<and>
            pipeline lib model tokenizer = Inr generate_text \<and>
            HuggingFacePipeline lib generate_text = Inr hf \<longrightarrow>
            init_model lib cfg default_model_id =
              ([Returned (Call_AutoConfig_from_pretrained default_model_id (environ_get lib ''HF_AUTH'')),
                Returned (Call_AutoModelForCausalLM_from_pretrained default_model_id model_config cfg
                            (environ_get lib ''HF_AUTH'')),
                Returned (Call_eval model),
                Returned (Call_AutoTokenizer_from_pretrained default_model_id
                            (environ_get lib ''HF_AUTH'')),
                Returned (Call_pipeline model tokenizer),
                Returned (Call_HuggingFacePipeline generate_text)],
               Inr hf))"
proof -
  have a: "init_bnb_config_defaults lib =
           ([Returned (Call_BitsAndBytesConfig (PyBool True) (PyStr ''nf4'') (PyBool True)
                         (PyStr ''bfloat16''))], Inr cfg)"
    using cfg by (simp add: init_bnb_config_defaults_run call_def)
  have q: "map event_call (take 3 (fst (query lib question docs_path))) =
           [Call_BitsAndBytesConfig (PyBool True) (PyStr ''nf4'') (PyBool True) (PyStr ''bfloat16''),
            Call_AutoConfig_from_pretrained default_model_id (environ_get lib ''HF_AUTH''),
            Call_AutoModelForCausalLM_from_pretrained default_model_id model_config cfg
              (environ_get lib ''HF_AUTH'')]"
    unfolding query_def by (rule take3_setup [OF cfg mc])
  have m: "map event_call (take 3 (fst (main lib stdin))) =
           [Call_BitsAndBytesConfig (PyBool True) (PyStr ''nf4'') (PyBool True) (PyStr ''bfloat16''),
            Call_AutoConfig_from_pretrained default_model_id (environ_get lib ''HF_AUTH''),
            Call_AutoModelForCausalLM_from_pretrained default_model_id model_config cfg
              (environ_get lib ''HF_AUTH'')]"
    unfolding main_def by (rule take3_setup [OF cfg mc])
  show ?thesis
    using a build_calls_init_model [OF mc, of cfg] q m init_model_success [OF mc]
    by blast
qed

theorem init_model_passes_bnb_config_witness:
  "init_bnb_config_defaults lib0 =
     ([Returned (Call_BitsAndBytesConfig (PyBool True) (PyStr ''nf4'') (PyBool True)
                   (PyStr ''bfloat16''))], Inr 1) \<and>
   build_calls (fst (init_model lib0 1 default_model_id)) =
     [Call_AutoModelForCausalLM_from_pretrained default_model_id 2 1 None] \<and>
   init_model lib0 1 default_model_id =
     ([Returned (Call_AutoConfig_from_pretrained default_model_id None),
       Returned (Call_AutoModelForCausalLM_from_pretrained default_model_id 2 1 None),
       Returned (Call_eval 3),
       Returned (Call_AutoTokenizer_from_pretrained default_model_id None),
       Returned (Call_pipeline 3 4),
       Returned (Call_HuggingFacePipeline 5)],
      Inr 6)"
proof -
  have cfg: "BitsAndBytesConfig lib0 (PyBool True) (PyStr ''nf4'') (PyBool True) (PyStr ''bfloat16'') =
             Inr 1"
    by (simp add: lib0_simps)
  have mc: "AutoConfig_from_pretrained lib0 default_model_id (environ_get lib0 ''HF_AUTH'') = Inr 2"
    by (simp add: lib0_simps)
  have env: "environ_get lib0 ''HF_AUTH'' = None"
    by (simp add: lib0_simps)
  have rest: "AutoModelForCausalLM_from_pretrained lib0 default_model_id 2 1 None = Inr 3"
    "model_eval lib0 3 = Inr ()" "AutoTokenizer_from_pretrained lib0 default_model_id None = Inr 4"
    "pipeline lib0 3 4 = Inr 5" "HuggingFacePipeline lib0 5 = Inr 6"
    by (simp_all add: lib0_simps)
  show ?thesis
    using init_model_passes_bnb_config [OF cfg mc, of "''q''" "''docs''" "[]"] rest
    unfolding env by (simp add: build_calls_def)
qed

section \<open>Properties of llm\<close>

lemma llm_trace:
  "searched (fst (llm lib question db model)) = [(db, question)] \<and>
   set (chained (fst (llm lib question db model))) \<subseteq> {model} \<and>
   build_calls (fst (llm lib question db model)) = []"
  using rerank_trace [of lib]
  by (simp add: llm_def fst_and_then fst_call event_call_case
      searched_simps chained_simps build_calls_simps split: sum.splits)

text \<open>Claim C2: \<open>llm\<close> first searches the vector store with the question, then reranks what
  the search returned, then builds the prompt and the chain and invokes the chain on the
  question, and returns the chain's answer. The template handed to the prompt is the
  fixed text around the reranked context and the question; the context is the
  concatenation of the page contents of at most three of the retrieved documents.\<close>

theorem llm_pipeline:
  assumes search: "similarity_search lib data_base question 25 = Inr docs"
    and reranked: "snd (rerank lib (pre_rerank docs question)) = Inr context"
    and prompt: "from_template lib (prompt_template context question) = Inr prompt"
    and chain: "chain lib prompt model = Inr chain_obj"
  shows "llm lib question data_base model =
           (Returned (Call_similarity_search data_base question 25) #
            fst (rerank lib (pre_rerank docs question)) @
            [Returned (Call_from_template (prompt_template context question)),
             Returned (Call_chain prompt model),
             (case invoke lib chain_obj question of
                Inl e \<Rightarrow> Raised (Call_invoke chain_obj question) e
              | Inr answer \<Rightarrow> Returned (Call_invoke chain_obj question))],
            invoke lib chain_obj question) \<and>
         prompt_template context question =
           ''Answer the question based only on the context,\<newline> '' @ context @
           '' \<newline>        \<newline>        Question: '' @ question @
           '' \<newline>        Answer in French:\<newline>        '' \<and>
         (\<exists>sel. length sel \<le> 3 \<and> (\<forall>i\<in>set sel. i < length docs) \<and>
            context = concat (map (\<lambda>i. page_content (docs ! i)) sel))"
proof -
  have run: "llm lib question data_base model =
           (Returned (Call_similarity_search data_base question 25) #
            fst (rerank lib (pre_rerank docs question)) @
            [Returned (Call_from_template (prompt_template context question)),
             Returned (Call_chain prompt model),
             (case invoke lib chain_obj question of
                Inl e \<Rightarrow> Raised (Call_invoke chain_obj question) e
              | Inr answer \<Rightarrow> Returned (Call_invoke chain_obj question))],
            invoke lib chain_obj question)"
    using search prompt chain
    by (simp add: llm_def and_then_call_Inr and_then_Inr [OF reranked] fst_call snd_call)
  from rerank_Inr [OF reranked] obtain sel where
    sel: "length sel \<le> 3" "\<forall>i\<in>set sel. i < length docs"
    "context = concat (map (\<lambda>i. pre_rerank docs question ! i ! 1) sel)"
    by (auto simp: pre_rerank_def)
  have eq: "map (\<lambda>i. pre_rerank docs question ! i ! 1) sel = map (\<lambda>i. page_content (docs ! i)) sel"
    using sel(2) by (simp add: pre_rerank_def)
  have "context = concat (map (\<lambda>i. page_content (docs ! i)) sel)"
    unfolding sel(3) eq by (rule refl)
  with sel(1,2) have "\<exists>sel. length sel \<le> 3 \<and> (\<forall>i\<in>set sel. i < length docs) \<and>
            context = concat (map (\<lambda>i. page_content (docs ! i)) sel)"
    by blast
  with run show ?thesis by (simp add: prompt_template_def)
qed

theorem llm_pipeline_witness:
  "llm lib0 ''q'' 14 6 =
     ([Returned (Call_similarity_search 14 ''q'' 25),
       Returned (Call_AutoTokenizer_from_pretrained reranker_id None),
       Returned (Call_AutoModelForSequenceClassification_from_pretrained reranker_id),
       Returned (Call_eval 9),
       Returned (Call_tokenizer 4 [[''q'', ''a''], [''q'', ''b''], [''q'', ''c''], [''q'', ''d'']]),
       Returned (Call_logits 9 10),
       Returned (Call_from_template (prompt_template ''bdc'' ''q'')),
       Returned (Call_chain 11 6),
       Returned (Call_invoke 12 ''q'')],
      Inr ''Paris'')"
proof -
  let ?docs = "[doc ''a'', doc ''b'', doc ''c'', doc ''d'']"
  have search: "similarity_search lib0 14 ''q'' 25 = Inr ?docs"
    by (simp add: lib0_simps)
  have reranked: "snd (rerank lib0 (pre_rerank ?docs ''q'')) = Inr ''bdc''"
    by (simp add: lib0_rerank)
  have prompt: "from_template lib0 (prompt_template ''bdc'' ''q'') = Inr 11"
    by (simp add: lib0_simps)
  have chain: "chain lib0 11 6 = Inr 12"
    by (simp add: lib0_simps)
  show ?thesis
    using llm_pipeline [OF search reranked prompt chain]
    by (simp add: lib0_rerank lib0_simps)
qed

section \<open>Properties of the command-line loop and the main block\<close>

lemma cli_loop_exit: "cli_loop lib db model ''exit'' stdin = ret ()"
  by (cases stdin) simp_all

lemma cli_loop_step:
  "question \<noteq> ''exit'' \<Longrightarrow>
   cli_loop lib db model question stdin =
     and_then (llm lib question db model) (\<lambda>result.
     and_then (call (Call_print result) (py_print lib result)) (\<lambda>_.
     and_then (py_input query_prompt stdin) (\<lambda>next_question.
     cli_loop lib db model next_question (drop 1 stdin))))"
  by (cases stdin) (simp_all add: py_input_def and_then_pair_Inl call_Inl)

lemma cli_loop_trace:
  "prefix (map snd (searched (fst (cli_loop lib db model question stdin))))
     (takeWhile (\<lambda>q. q \<noteq> ''exit'') (question # stdin)) \<and>
   set (map fst (searched (fst (cli_loop lib db model question stdin)))) \<subseteq> {db} \<and>
   set (chained (fst (cli_loop lib db model question stdin))) \<subseteq> {model} \<and>
   build_calls (fst (cli_loop lib db model question stdin)) = []"
proof (induction stdin arbitrary: question)
  case Nil
  show ?case
    using llm_trace [of lib question db model]
    by (simp add: ret_def fst_and_then fst_call snd_call event_call_case
        searched_simps chained_simps build_calls_simps split: sum.splits)
next
  case (Cons line rest)
  show ?case
    using llm_trace [of lib question db model] Cons.IH [of line]
    by (auto simp add: ret_def fst_and_then fst_call snd_call event_call_case
        searched_simps chained_simps build_calls_simps split: sum.splits if_splits)
qed

lemma cli_loop_success:
  assumes "\<forall>q\<in>set (question # qs). q \<noteq> ''exit'' \<and>
             (\<exists>answer. snd (llm lib q db model) = Inr answer \<and> py_print lib answer = Inr ())"
  shows "cli_loop lib db model question (qs @ ''exit'' # rest) =
           (concat (map (\<lambda>q. fst (llm lib q db model) @
                           [Returned (Call_print (projr (snd (llm lib q db model)))),
                            Returned (Call_input query_prompt)])
                      (question # qs)),
            Inr ())"
  using assms
proof (induction qs arbitrary: question)
  case Nil
  then obtain answer where "snd (llm lib question db model) = Inr answer"
    "py_print lib answer = Inr ()" "question \<noteq> ''exit''"
    by auto
  then show ?case
    by (simp add: and_then_Inr and_then_call_Inr cli_loop_exit ret_def)
next
  case (Cons q qs)
  then obtain answer where a: "snd (llm lib question db model) = Inr answer"
    "py_print lib answer = Inr ()" "question \<noteq> ''exit''"
    by auto
  have "cli_loop lib db model q (qs @ ''exit'' # rest) =
          (concat (map (\<lambda>q. fst (llm lib q db model) @
                           [Returned (Call_print (projr (snd (llm lib q db model)))),
                            Returned (Call_input query_prompt)])
                      (q # qs)),
           Inr ())"
    using Cons.prems by (intro Cons.IH) simp
  with a show ?case
    by (simp add: and_then_Inr and_then_call_Inr)
qed

lemma searched_concat_llm:
  "searched (concat (map (\<lambda>q. fst (llm lib q db model) @ [Returned (Call_print (f q)),
       Returned (Call_input p)]) qs)) = map (\<lambda>q. (db, q)) qs"
  using llm_trace [of lib _ db model]
  by (induction qs) (simp_all add: searched_simps)

lemma build_calls_glob_extensions:
  "build_calls (fst (glob_extensions lib directory exts files)) = []"
  by (induction exts arbitrary: files)
     (simp_all add: ret_def fst_and_then fst_call event_call_case build_calls_simps
        split: sum.splits)

lemma build_calls_load_files:
  "build_calls (fst (load_files lib files documents)) = []"
  by (induction files arbitrary: documents)
     (simp_all add: ret_def fst_and_then fst_call event_call_case build_calls_simps
        split: sum.splits option.splits)

lemma build_calls_user_documents: "build_calls (fst (user_documents lib directory)) = []"
  by (simp add: user_documents_def fst_and_then fst_call event_call_case build_calls_simps
      build_calls_glob_extensions build_calls_load_files split: sum.splits)

lemma init_model_Inr_config:
  "snd (init_model lib bnb_config model_id) = Inr model \<Longrightarrow>
   \<exists>model_config. AutoConfig_from_pretrained lib model_id (environ_get lib ''HF_AUTH'') =
     Inr model_config"
  by (auto simp: init_model_def Let_def snd_and_then snd_call split: sum.splits)

lemma main_decomposition:
  assumes bnb: "snd (init_bnb_config_defaults lib) = Inr bnb_config"
    and mdl: "snd (init_model lib bnb_config default_model_id) = Inr model"
    and emb: "HuggingFaceEmbeddings lib embeddings_model_name = Inr embeddings"
    and dcs: "snd (user_documents lib directory) = Inr docs"
    and idx: "FAISS_from_documents lib docs embeddings = Inr db"
  shows "main lib (directory # question # stdin) =
           (fst (init_bnb_config_defaults lib) @
            fst (init_model lib bnb_config default_model_id) @
            [Returned (Call_HuggingFaceEmbeddings embeddings_model_name),
             Returned (Call_input path_prompt)] @
            fst (user_documents lib directory) @
            [Returned (Call_FAISS_from_documents docs embeddings),
             Returned (Call_input query_prompt)] @
            fst (cli_loop lib db model question stdin),
            snd (cli_loop lib db model question stdin))"
  using emb idx
  by (simp add: main_def py_input_def and_then_Inr [OF bnb] and_then_Inr [OF mdl]
      and_then_Inr [OF dcs] and_then_call_Inr)

lemma main_build_calls:
  assumes bnb: "snd (init_bnb_config_defaults lib) = Inr bnb_config"
    and mdl: "snd (init_model lib bnb_config default_model_id) = Inr model"
    and emb: "HuggingFaceEmbeddings lib embeddings_model_name = Inr embeddings"
    and dcs: "snd (user_documents lib directory) = Inr docs"
    and idx: "FAISS_from_documents lib docs embeddings = Inr db"
  shows "\<exists>model_config. build_calls (fst (main lib (directory # question # stdin))) =
           [Call_AutoModelForCausalLM_from_pretrained default_model_id model_config bnb_config
              (environ_get lib ''HF_AUTH''),
            Call_FAISS_from_documents docs embeddings]"
proof -
  from init_model_Inr_config [OF mdl] obtain model_config where
    mc: "AutoConfig_from_pretrained lib default_model_id (environ_get lib ''HF_AUTH'') =
           Inr model_config"
    by blast
  have "build_calls (fst (init_bnb_config_defaults lib)) = []"
    by (simp add: init_bnb_config_defaults_run fst_call event_call_case build_calls_simps)
  then have "build_calls (fst (main lib (directory # question # stdin))) =
           [Call_AutoModelForCausalLM_from_pretrained default_model_id model_config bnb_config
              (environ_get lib ''HF_AUTH''),
            Call_FAISS_from_documents docs embeddings]"
    using cli_loop_trace [of lib db model question stdin]
    by (simp add: main_decomposition [OF bnb mdl emb dcs idx] build_calls_simps
        build_calls_init_model [OF mc] build_calls_user_documents)
  then show ?thesis by blast
qed

text \<open>Claim C4: the loop ends at once, with no further call, when the query is \<open>exit\<close>;
  otherwise \<open>llm\<close> runs once on the query, its result is printed, the user is prompted,
  and the loop goes on with the line read and the same index and model. The questions
  submitted to the index are, in order and once each, an initial stretch of the queries
  read before the first \<open>exit\<close> (all of them when no call fails); every search is on the
  index given to the loop and every chain on the model given to it; the loop loads no
  model and builds no index. The main block loads the model and builds the index once,
  before the first query is read, and gives those to the loop.\<close>

theorem cli_loop_behaviour:
  "cli_loop lib db model ''exit'' stdin = ret () \<and>
   (question \<noteq> ''exit'' \<longrightarrow>
      cli_loop lib db model question stdin =
        and_then (llm lib question db model) (\<lambda>result.
        and_then (call (Call_print result) (py_print lib result)) (\<lambda>_.
        and_then (py_input query_prompt stdin) (\<lambda>next_question.
        cli_loop lib db model next_question (drop 1 stdin))))) \<and>
   prefix (map snd (searched (fst (cli_loop lib db model question stdin))))
     (takeWhile (\<lambda>q. q \<noteq> ''exit'') (question # stdin)) \<and>
   set (map fst (searched (fst (cli_loop lib db model question stdin)))) \<subseteq> {db} \<and>
   set (chained (fst (cli_loop lib db model question stdin))) \<subseteq> {model} \<and>
   build_calls (fst (cli_loop lib db model question stdin)) = [] \<and>
   ((\<forall>q\<in>set (question # qs). q \<noteq> ''exit'' \<and>
        (\<exists>answer. snd (llm lib q db model) = Inr answer \<and> py_print lib answer = Inr ())) \<longrightarrow>
      cli_loop lib db model question (qs @ ''exit'' # rest) =
        (concat (map (\<lambda>q. fst (llm lib q db model) @
                        [Returned (Call_print (projr (snd (llm lib q db model)))),
                         Returned (Call_input query_prompt)])
                   (question # qs)),
         Inr ()) \<and>
      searched (fst (cli_loop lib db model question (qs @ ''exit'' # rest))) =
        map (\<lambda>q. (db, q)) (question # qs)) \<and>
   (snd (init_bnb_config_defaults lib) = Inr bnb_config \<and>
    snd (init_model lib bnb_config default_model_id) = Inr model \<and>
    HuggingFaceEmbeddings lib embeddings_model_name = Inr embeddings \<and>
    snd (user_documents lib directory) = Inr docs \<and>
    FAISS_from_documents lib docs embeddings = Inr db \<longrightarrow>
      main lib (directory # question # stdin) =
        (fst (init_bnb_config_defaults lib) @
         fst (init_model lib bnb_config default_model_id) @
         [Returned (Call_HuggingFaceEmbeddings embeddings_model_name),
          Returned (Call_input path_prompt)] @
         fst (user_documents lib directory) @
         [Returned (Call_FAISS_from_documents docs embeddings),
          Returned (Call_input query_prompt)] @
         fst (cli_loop lib db model question stdin),
         snd (cli_loop lib db model question stdin)) \<and>
      (\<exists>model_config. build_calls (fst (main lib (directory # question # stdin))) =
         [Call_AutoModelForCausalLM_from_pretrained default_model_id model_config bnb_config
            (environ_get lib ''HF_AUTH''),
          Call_FAISS_from_documents docs embeddings]))"
proof -
  have success: "cli_loop lib db model question (qs @ ''exit'' # rest) =
        (concat (map (\<lambda>q. fst (llm lib q db model) @
                        [Returned (Call_print (projr (snd (llm lib q db model)))),
                         Returned (Call_input query_prompt)])
                   (question # qs)),
         Inr ()) \<and>
      searched (fst (cli_loop lib db model question (qs @ ''exit'' # rest))) =
        map (\<lambda>q. (db, q)) (question # qs)"
    if "\<forall>q\<in>set (question # qs). q \<noteq> ''exit'' \<and>
        (\<exists>answer. snd (llm lib q db model) = Inr answer \<and> py_print lib answer = Inr ())"
    using cli_loop_success [OF that, of rest]
      searched_concat_llm [of lib db model "\<lambda>q. projr (snd (llm lib q db model))" query_prompt
        "question # qs"]
    by simp
  show ?thesis
    using cli_loop_exit [of lib db model stdin] cli_loop_step [of question lib db model stdin]
      cli_loop_trace [of lib db model question stdin] success
      main_decomposition [of lib bnb_config model embeddings directory docs db question stdin]
      main_build_calls [of lib bnb_config model embeddings directory docs db question stdin]
    by blast
qed

theorem cli_loop_behaviour_witness:
  "cli_loop lib0 14 6 ''exit'' [''q2'', ''exit'', ''q3''] = ret () \<and>
   searched (fst (cli_loop lib0 14 6 ''q1'' [''q2'', ''exit'', ''q3''])) =
     [(14, ''q1''), (14, ''q2'')] \<and>
   snd (cli_loop lib0 14 6 ''q1'' [''q2'', ''exit'', ''q3'']) = Inr () \<and>
   snd (main lib0 [''docs'', ''q1'', ''q2'', ''exit'', ''q3'']) = Inr () \<and>
   length (build_calls (fst (main lib0 [''docs'', ''q1'', ''q2'', ''exit'', ''q3'']))) = 2"
proof -
  have answers: "\<forall>q\<in>set (''q1'' # [''q2'']). q \<noteq> ''exit'' \<and>
      (\<exists>answer. snd (llm lib0 q 14 6) = Inr answer \<and> py_print lib0 answer = Inr ())"
    by (simp add: lib0_llm lib0_simps)
  have built: "snd (init_bnb_config_defaults lib0) = Inr 1 \<and>
      snd (init_model lib0 1 default_model_id) = Inr 6 \<and>
      HuggingFaceEmbeddings lib0 embeddings_model_name = Inr 13 \<and>
      snd (user_documents lib0 ''docs'') = Inr [doc ''text'', doc ''text''] \<and>
      FAISS_from_documents lib0 [doc ''text'', doc ''text''] 13 = Inr 14"
    by (simp add: init_bnb_config_defaults_run lib0_init_model lib0_user_documents lib0_simps
        call_Inr)
  note loop = cli_loop_behaviour [where lib = lib0 and db = 14 and model = 6
      and question = "''q1''" and stdin = "[''q2'', ''exit'', ''q3'']" and qs = "[''q2'']"
      and rest = "[''q3'']" and bnb_config = 1 and embeddings = 13 and directory = "''docs''"
      and docs = "[doc ''text'', doc ''text'']"]
  note exit_now = loop [THEN conjunct1]
  note all_answered = loop [THEN conjunct2, THEN conjunct2, THEN conjunct2, THEN conjunct2,
      THEN conjunct2, THEN conjunct2, THEN conjunct1, THEN mp, OF answers]
  note main_run = loop [THEN conjunct2, THEN conjunct2, THEN conjunct2, THEN conjunct2,
      THEN conjunct2, THEN conjunct2, THEN conjunct2, THEN mp, OF built]
  have run: "cli_loop lib0 14 6 ''exit'' [''q2'', ''exit'', ''q3''] = ret ()"
    "searched (fst (cli_loop lib0 14 6 ''q1'' [''q2'', ''exit'', ''q3''])) =
       [(14, ''q1''), (14, ''q2'')]"
    "snd (cli_loop lib0 14 6 ''q1'' [''q2'', ''exit'', ''q3'']) = Inr ()"
    using exit_now all_answered [THEN conjunct2] all_answered [THEN conjunct1]
    by (simp_all del: cli_loop.simps)
  have whole:
    "snd (main lib0 [''docs'', ''q1'', ''q2'', ''exit'', ''q3'']) =
       snd (cli_loop lib0 14 6 ''q1'' [''q2'', ''exit'', ''q3''])"
    "\<exists>model_config. build_calls (fst (main lib0 [''docs'', ''q1'', ''q2'', ''exit'', ''q3''])) =
       [Call_AutoModelForCausalLM_from_pretrained default_model_id model_config 1
          (environ_get lib0 ''HF_AUTH''),
        Call_FAISS_from_documents [doc ''text'', doc ''text''] 13]"
    using main_run [THEN conjunct1] main_run [THEN conjunct2]
    by (simp_all del: cli_loop.simps)
  from whole(2) have "length (build_calls (fst (main lib0 [''docs'', ''q1'', ''q2'', ''exit'', ''q3'']))) = 2"
    by auto
  with run whole(1) show ?thesis by simp
qed

section \<open>Properties of user\_documents\<close>

lemma glob_extensions_found:
  assumes "\<forall>extension\<in>set exts.
             glob lib (os_path_join directory (''*'' @ extension)) = Inr (found extension)"
  shows "glob_extensions lib directory exts files =
           (map (\<lambda>extension. Returned (Call_glob (os_path_join directory (''*'' @ extension)))) exts,
            Inr (files @ concat (map found exts)))"
  using assms
  by (induction exts arbitrary: files) (simp_all add: ret_def and_then_call_Inr)

lemma loader_calls_glob_extensions:
  "loader_calls (fst (glob_extensions lib directory exts files)) = []"
  by (induction exts arbitrary: files)
     (simp_all add: ret_def fst_and_then fst_call event_call_case loader_calls_simps
        split: sum.splits)

lemma takeWhile_rev_joined:
  assumes "CHR ''/'' \<notin> set name" and "p = [] \<or> last p = CHR ''/''"
  shows "rev (takeWhile (\<lambda>c. c \<noteq> CHR ''/'') (rev (p @ name))) = name"
proof -
  have "takeWhile (\<lambda>c. c \<noteq> CHR ''/'') (rev p) = []"
    using assms(2) by (cases "rev p") (auto simp: last_rev [symmetric] simp del: last_rev)
  moreover have "takeWhile (\<lambda>c. c \<noteq> CHR ''/'') (rev name @ rev p) =
      rev name @ takeWhile (\<lambda>c. c \<noteq> CHR ''/'') (rev p)"
    using assms(1) by (intro takeWhile_append2) auto
  ultimately show ?thesis by simp
qed

lemma os_path_join_entry:
  assumes "name \<noteq> []" and "CHR ''/'' \<notin> set name"
  shows "\<exists>p. os_path_join directory name = p @ name \<and> (p = [] \<or> last p = CHR ''/'')"
proof -
  have "hd name \<noteq> CHR ''/''"
    using assms by (cases name) auto
  then show ?thesis
    using assms(1)
    by (cases "directory = [] \<or> last directory = CHR ''/''")
       (auto simp: os_path_join_def intro: exI [of _ "directory @ ''/''"] exI [of _ directory])
qed

lemma splitext_tail:
  assumes name: "name = stem @ CHR ''.'' # ext"
    and ext: "CHR ''.'' \<notin> set ext"
    and stem: "stem \<noteq> []" "hd stem \<noteq> CHR ''.''"
    and slash: "CHR ''/'' \<notin> set name"
    and dir: "p = [] \<or> last p = CHR ''/''"
  shows "snd (os_path_splitext (p @ name)) = CHR ''.'' # ext"
proof -
  have tail: "rev (takeWhile (\<lambda>c. c \<noteq> CHR ''/'') (rev (p @ name))) = name"
    by (rule takeWhile_rev_joined [OF slash dir])
  have "dropWhile (\<lambda>c. c = CHR ''.'') name = name"
    using stem name by (cases stem) auto
  then have dot: "CHR ''.'' \<in> set (dropWhile (\<lambda>c. c = CHR ''.'') name)"
    using name by simp
  have "takeWhile (\<lambda>c. c \<noteq> CHR ''.'') (rev ext @ CHR ''.'' # rev stem) = rev ext"
    using ext by (subst takeWhile_append2) auto
  then have last_dot: "rev (takeWhile (\<lambda>c. c \<noteq> CHR ''.'') (rev name)) = ext"
    using name by simp
  show ?thesis
    unfolding os_path_splitext_def Let_def tail last_dot using dot by simp
qed

lemma file_extensions_shape:
  assumes "extension \<in> set file_extensions"
  shows "\<exists>ext. extension = CHR ''.'' # ext \<and> CHR ''.'' \<notin> set ext"
  using assms by (auto simp: file_extensions_def)

lemma loaders_file_extensions:
  "extension \<in> set file_extensions \<Longrightarrow> loaders extension \<noteq> None"
  by (auto simp: file_extensions_def loaders_def)

lemma splitext_joined:
  assumes e: "extension \<in> set file_extensions"
    and m: "glob_matches extension name"
    and s: "CHR ''/'' \<notin> set name"
  shows "snd (os_path_splitext (os_path_join directory name)) = extension"
proof -
  from file_extensions_shape [OF e] obtain ext where
    ext: "extension = CHR ''.'' # ext" "CHR ''.'' \<notin> set ext"
    by blast
  from m obtain stem where stem: "name = stem @ extension"
    by (auto simp: glob_matches_def suffix_def)
  have hidden: "\<not> prefix ''.'' name"
    using m by (simp add: glob_matches_def)
  have ne: "stem \<noteq> []" "hd stem \<noteq> CHR ''.''"
    using hidden stem ext(1) by (cases stem; simp)+
  have "name \<noteq> []" using stem ext(1) by simp
  from os_path_join_entry [OF this s, of directory] obtain p where
    p: "os_path_join directory name = p @ name" "p = [] \<or> last p = CHR ''/''"
    by blast
  show ?thesis
    using splitext_tail [OF _ ext(2) ne s p(2)] stem ext(1) p(1) by simp
qed

lemma load_files_calls:
  "\<forall>(c, f)\<in>set (loader_calls (fst (load_files lib files documents))).
     loaders (snd (os_path_splitext f)) = Some c \<and> f \<in> set files"
  by (induction files arbitrary: documents)
     (auto simp: ret_def fst_and_then fst_call event_call_case loader_calls_simps
        split: sum.splits option.splits)

lemma load_files_Inr:
  "snd (load_files lib files documents) = Inr result \<Longrightarrow>
   loader_calls (fst (load_files lib files documents)) =
     concat (map (\<lambda>f. case loaders (snd (os_path_splitext f)) of
                          None \<Rightarrow> [] | Some c \<Rightarrow> [(c, f)]) files) \<and>
   result = documents @ concat (map (file_documents lib) files)"
proof (induction files arbitrary: documents)
  case Nil
  then show ?case by (simp add: ret_def loader_calls_simps)
next
  case (Cons path rest)
  show ?case
  proof (cases "loaders (snd (os_path_splitext path))")
    case None
    with Cons.prems Cons.IH [of documents] show ?thesis
      by (simp add: file_documents_def)
  next
    case (Some c)
    with Cons.prems obtain loader loaded where
      l: "loader_init lib c path = Inr loader" "loader_load lib loader = Inr loaded"
      "snd (load_files lib rest (documents @ loaded)) = Inr result"
      by (auto simp: snd_and_then snd_call split: sum.splits)
    from Cons.IH [OF l(3)] Some l(1,2) show ?thesis
      by (simp add: and_then_call_Inr loader_calls_simps file_documents_def)
  qed
qed

lemma selected_files_set:
  "set (selected_files lib directory) =
     os_path_join (glob_dirname directory) `
       {name \<in> set (listdir lib (glob_dirname directory)).
          \<not> prefix ''.'' name \<and> (\<exists>extension\<in>set file_extensions. suffix extension name)}"
  by (auto simp: selected_files_def glob_matches_def)

lemma selected_files_extension:
  assumes "glob_contract lib directory" and "file \<in> set (selected_files lib directory)"
  shows "snd (os_path_splitext file) \<in> set file_extensions"
proof -
  from assms(2) obtain extension name where
    n: "extension \<in> set file_extensions" "name \<in> set (listdir lib (glob_dirname directory))"
    "glob_matches extension name" "file = os_path_join (glob_dirname directory) name"
    by (auto simp: selected_files_def)
  from assms(1) n(2) have "CHR ''/'' \<notin> set name"
    by (simp add: glob_contract_def)
  from splitext_joined [OF n(1,3) this] n(1,4) show ?thesis by simp
qed

lemma user_documents_files:
  assumes "glob_contract lib directory"
  shows "glob_extensions lib directory file_extensions [] =
           (map (\<lambda>extension. Returned (Call_glob (os_path_join directory (''*'' @ extension))))
              file_extensions,
            Inr (selected_files lib directory))"
  using assms glob_extensions_found [of file_extensions lib directory
      "\<lambda>extension. map (os_path_join (glob_dirname directory))
         (filter (glob_matches extension) (listdir lib (glob_dirname directory)))" "[]"]
  by (simp add: glob_contract_def selected_files_def)

lemma user_documents_calls:
  "\<forall>(c, f)\<in>set (loader_calls (fst (user_documents lib directory))).
     loaders (snd (os_path_splitext f)) = Some c"
  using load_files_calls [of lib _ "[]"] loader_calls_glob_extensions [of lib directory]
  by (auto simp: user_documents_def fst_and_then fst_call event_call_case loader_calls_simps
      split: sum.splits)

lemma concat_map_loaded:
  "\<forall>f\<in>set fs. g f \<noteq> None \<Longrightarrow>
   concat (map (\<lambda>f. case g f of None \<Rightarrow> [] | Some c \<Rightarrow> [(c, f)]) fs) =
     map (\<lambda>f. (the (g f), f)) fs"
  by (induction fs) auto

lemma user_documents_loader_calls:
  assumes "snd (glob_extensions lib directory file_extensions []) = Inr files"
  shows "loader_calls (fst (user_documents lib directory)) =
           loader_calls (fst (load_files lib files []))"
  using assms loader_calls_glob_extensions [of lib directory file_extensions "[]"]
  by (simp add: user_documents_def fst_and_then fst_call event_call_case loader_calls_simps
      split: sum.splits)

lemma has_magic_docs: "\<not> has_magic ''docs''"
  by (simp add: has_magic_def)

text \<open>Claim C3, as stated, fails twice in the directory \<open>docs\<close>, a literal path where
  \<open>glob\<close> does what it documents. The entry \<open>.draft.txt\<close> is directly inside it and its
  name ends in \<open>.txt\<close>, yet it is not selected; and \<open>dir.txt\<close>, which is selected and handed
  to \<open>TextLoader\<close>, is a directory, not a file.\<close>

theorem user_documents_hidden_file_counterexample:
  "\<not> has_magic ''docs'' \<and>
   glob_contract lib3 ''docs'' \<and>
   ''.draft.txt'' \<in> set (listdir lib3 ''docs'') \<and>
   suffix ''.txt'' ''.draft.txt'' \<and>
   isdir lib3 ''docs/dir.txt'' \<and>
   loader_calls (fst (user_documents lib3 ''docs'')) =
     [(PyPDFLoader, ''docs/b.pdf''), (TextLoader, ''docs/a.txt''),
      (TextLoader, ''docs/dir.txt'')]"
  by (simp add: has_magic_docs lib3_glob_contract lib3_user_documents lib3_simps suffix_Cons
      loader_calls_simps)

text \<open>The amended claim is about literal directory strings only. \<open>user_documents\<close> hands
  the directory to \<open>glob\<close> unescaped, so a string with a pattern character selects from
  the directories it matches as a pattern: given \<open>docs[1]\<close>, which holds \<open>a.txt\<close>, the file
  loaded is \<open>b.txt\<close> of the sibling directory \<open>docs1\<close>. The amended claim neither promises
  nor denies this.\<close>

lemma user_documents_unescaped_directory:
  "has_magic ''docs[1]'' \<and>
   listdir lib3 ''docs[1]'' = [''a.txt''] \<and>
   loader_calls (fst (user_documents lib3 ''docs[1]'')) = [(TextLoader, ''docs1/b.txt'')]"
  by (simp add: has_magic_def lib3_user_documents_pattern lib3_simps loader_calls_simps)

text \<open>Claim C3, amended: for a directory string with none of the characters \<open>*\<close>, \<open>?\<close>
  and \<open>[\<close>, where \<open>glob\<close> does what it documents, file discovery in \<open>user_documents\<close>
  selects exactly the entries (files and directories alike) directly inside the given
  directory, not in subdirectories, whose names do not begin with a dot and end in one
  of the six extensions. In every run only selected entries are handed to a loader, each
  with the loader mapped to its extension, so a file with any other extension
  contributes nothing; and when the run returns, every selected entry has been loaded, in
  the order found, and the chunk list is the split of the documents so loaded.\<close>

theorem user_documents_selection:
  assumes literal: "\<not> has_magic directory"
    and contract: "glob_contract lib directory"
  shows "glob_extensions lib directory file_extensions [] =
           (map (\<lambda>extension. Returned (Call_glob (os_path_join directory (''*'' @ extension))))
              file_extensions,
            Inr (selected_files lib directory)) \<and>
         set (selected_files lib directory) =
           os_path_join (glob_dirname directory) `
             {name \<in> set (listdir lib (glob_dirname directory)).
                \<not> prefix ''.'' name \<and> (\<exists>extension\<in>set file_extensions. suffix extension name)} \<and>
         (\<forall>file\<in>set (selected_files lib directory).
            snd (os_path_splitext file) \<in> set file_extensions) \<and>
         (\<forall>(loader_class, file)\<in>set (loader_calls (fst (user_documents lib directory))).
            file \<in> set (selected_files lib directory) \<and>
            loaders (snd (os_path_splitext file)) = Some loader_class) \<and>
         (\<forall>chunks. snd (user_documents lib directory) = Inr chunks \<longrightarrow>
            loader_calls (fst (user_documents lib directory)) =
              map (\<lambda>file. (the (loaders (snd (os_path_splitext file))), file))
                (selected_files lib directory) \<and>
            (\<exists>text_splitter.
               CharacterTextSplitter lib 1000 0 = Inr text_splitter \<and>
               split_documents lib text_splitter
                 (concat (map (file_documents lib) (selected_files lib directory))) =
                 Inr chunks))"
proof -
  let ?files = "selected_files lib directory"
  have exts: "\<forall>file\<in>set ?files. snd (os_path_splitext file) \<in> set file_extensions"
    using selected_files_extension [OF contract] by blast
  note globbed = user_documents_files [OF contract]
  have globbed_snd: "snd (glob_extensions lib directory file_extensions []) = Inr ?files"
    by (simp add: globbed)
  note trace = user_documents_loader_calls [OF globbed_snd]
  have only_selected:
    "\<forall>(loader_class, file)\<in>set (loader_calls (fst (user_documents lib directory))).
       file \<in> set ?files \<and> loaders (snd (os_path_splitext file)) = Some loader_class"
    unfolding trace using load_files_calls [of lib ?files "[]"] by fastforce
  have all_loaded:
    "loader_calls (fst (user_documents lib directory)) =
       map (\<lambda>file. (the (loaders (snd (os_path_splitext file))), file)) ?files \<and>
     (\<exists>text_splitter.
        CharacterTextSplitter lib 1000 0 = Inr text_splitter \<and>
        split_documents lib text_splitter (concat (map (file_documents lib) ?files)) = Inr chunks)"
    if returned: "snd (user_documents lib directory) = Inr chunks" for chunks
  proof -
    from returned obtain documents text_splitter where
      loaded: "snd (load_files lib ?files []) = Inr documents"
      and splitter: "CharacterTextSplitter lib 1000 0 = Inr text_splitter"
      and split: "split_documents lib text_splitter documents = Inr chunks"
      by (auto simp: user_documents_def and_then_Inr [OF globbed_snd] snd_and_then snd_call
          split: sum.splits)
    from load_files_Inr [OF loaded] have
      calls: "loader_calls (fst (load_files lib ?files [])) =
         concat (map (\<lambda>f. case loaders (snd (os_path_splitext f)) of
                              None \<Rightarrow> [] | Some c \<Rightarrow> [(c, f)]) ?files)"
      and documents: "documents = concat (map (file_documents lib) ?files)"
      by simp_all
    have "\<forall>file\<in>set ?files. loaders (snd (os_path_splitext file)) \<noteq> None"
      using exts loaders_file_extensions by blast
    then have "loader_calls (fst (load_files lib ?files [])) =
        map (\<lambda>file. (the (loaders (snd (os_path_splitext file))), file)) ?files"
      unfolding calls by (rule concat_map_loaded)
    with trace splitter split documents show ?thesis by auto
  qed
  show ?thesis
    using globbed selected_files_set [of lib directory] exts only_selected all_loaded
    by blast
qed

theorem user_documents_selection_witness:
  "\<not> has_magic ''docs'' \<and>
   glob_contract lib0 ''docs'' \<and>
   selected_files lib0 ''docs'' = [''docs/b.pdf'', ''docs/a.txt''] \<and>
   loader_calls (fst (user_documents lib0 ''docs'')) =
     [(PyPDFLoader, ''docs/b.pdf''), (TextLoader, ''docs/a.txt'')] \<and>
   split_documents lib0 8 (concat (map (file_documents lib0) (selected_files lib0 ''docs''))) =
     Inr [doc ''text'', doc ''text'']"
proof -
  have returned: "snd (user_documents lib0 ''docs'') = Inr [doc ''text'', doc ''text'']"
    by (simp add: lib0_user_documents)
  note sel = user_documents_selection [OF has_magic_docs lib0_glob_contract]
  note loaded = sel [THEN conjunct2, THEN conjunct2, THEN conjunct2, THEN conjunct2,
      THEN spec, THEN mp, OF returned]
  have calls: "loader_calls (fst (user_documents lib0 ''docs'')) =
     [(PyPDFLoader, ''docs/b.pdf''), (TextLoader, ''docs/a.txt'')]"
    using loaded [THEN conjunct1]
    by (simp add: lib0_selected_files os_path_splitext_def loaders_def)
  have chunks: "split_documents lib0 8
      (concat (map (file_documents lib0) (selected_files lib0 ''docs''))) =
     Inr [doc ''text'', doc ''text'']"
    using loaded [THEN conjunct2]
    by (auto simp: lib0_simps)
  show ?thesis
    using has_magic_docs lib0_glob_contract lib0_selected_files calls chunks by simp
qed

end
